theory Spec2Isabelle
  imports Main "HOL-Library.Sublist"
begin

section \<open>The event forwarder of src/index.js\<close>

text \<open>
  The mediator receives \<^verbatim>\<open>POST /event { uuid }\<close>, reads the Encounter, its Patient
  and eleven kinds of related resources from a FHIR proxy and writes each of them to a
  FHIR node. This theory embeds the functions of \<^verbatim>\<open>src/index.js\<close> (lines 40 to 170)
  and the variant of \<^verbatim>\<open>retryRequest\<close> in \<^verbatim>\<open>src/unnamed/part_000\<close> (lines 87 to 113).

  Effects are explicit: every function takes the state of the process and of the outside
  and returns it updated; a thrown error is the left summand of the result.
\<close>

subsection \<open>JSON values as JavaScript sees them\<close>

text \<open>
  What \<^verbatim>\<open>JSON.parse\<close> (in \<^verbatim>\<open>express.json\<close> and in axios) produces. The JavaScript
  value \<^verbatim>\<open>undefined\<close>, which JSON does not have, is \<open>None\<close> of \<open>json option\<close>.

  A number is a double. This program tests a number for zero, prints it into a URL and
  looks it up in a \<^verbatim>\<open>Set\<close>, and the print of the number decides all three; so
  \<open>JNum s\<close> is the number that \<^verbatim>\<open>String(n)\<close> prints as \<open>s\<close>. The print is the shortest
  decimal that reads back as the same double: two numbers print alike exactly when
  \<^verbatim>\<open>Set.has\<close> takes them for one value (\<open>0\<close> and \<open>-0\<close> both print \<^verbatim>\<open>0\<close>). The numerals
  \<^verbatim>\<open>9007199254740993\<close> and \<^verbatim>\<open>9007199254740992\<close> of two request bodies are read as the
  same double and are the one value \<open>JNum ''9007199254740992''\<close>; \<^verbatim>\<open>1.50\<close> is
  \<open>JNum ''1.5''\<close>, \<^verbatim>\<open>1e21\<close> is \<open>JNum ''1e+21''\<close> and \<^verbatim>\<open>1e999\<close> is \<open>JNum ''Infinity''\<close>.
\<close>

datatype json =
    JNull
  | JBool bool
  | JNum string
  | JStr string
  | JArr "json list"
  | JObj "(string \<times> json) list"

text \<open>
  What is thrown: \<^verbatim>\<open>null\<close> (the initial \<^verbatim>\<open>lastErr\<close>, which \<^verbatim>\<open>retryRequest\<close> throws when
  its budget is 0), or an error object with its message.
\<close>

datatype error =
    Null
  | AxiosError string
  | TypeError string
  | SystemError string

fun message :: "error \<Rightarrow> string option" where
  "message Null = None"
| "message (AxiosError m) = Some m"
| "message (TypeError m) = Some m"
| "message (SystemError m) = Some m"

text \<open>
  \<^verbatim>\<open>!v\<close> is false exactly on the truthy values. Of the numbers, zero and \<^verbatim>\<open>NaN\<close> are
  falsy (\<^verbatim>\<open>JSON.parse\<close> never yields \<^verbatim>\<open>NaN\<close>).
\<close>

fun truthy :: "json \<Rightarrow> bool" where
  "truthy JNull = False"
| "truthy (JBool b) = b"
| "truthy (JNum s) = (s \<noteq> ''0'' \<and> s \<noteq> ''NaN'')"
| "truthy (JStr s) = (s \<noteq> [])"
| "truthy (JArr xs) = True"
| "truthy (JObj kvs) = True"

fun truthy_opt :: "json option \<Rightarrow> bool" where
  "truthy_opt None = False"
| "truthy_opt (Some v) = truthy v"

text \<open>
  Strings, numbers and booleans are compared by value; an array or an object is compared
  by reference, and every parsed request body is a fresh reference.
\<close>

fun is_primitive :: "json \<Rightarrow> bool" where
  "is_primitive (JArr xs) = False"
| "is_primitive (JObj kvs) = False"
| "is_primitive v = True"

text \<open>
  \<^verbatim>\<open>String(n)\<close> for a natural number below \<open>10^21\<close>, as the length of an array is: all
  its digits.
\<close>

fun digits :: "nat \<Rightarrow> string" where
  "digits n = (if n < 10 then [char_of (48 + n)] else digits (n div 10) @ [char_of (48 + n mod 10)])"

declare digits.simps [simp del]

fun join :: "string \<Rightarrow> string list \<Rightarrow> string" where
  "join sep [] = []"
| "join sep [s] = s"
| "join sep (s # t # ss) = s @ sep @ join sep (t # ss)"

text \<open>
  The string a template literal \<^verbatim>\<open>`${v}`\<close> puts in: \<^verbatim>\<open>Array.prototype.toString\<close>
  joins the elements with commas and prints \<^verbatim>\<open>null\<close> as the empty string.
\<close>

fun js_string :: "json \<Rightarrow> string" where
  "js_string JNull = ''null''"
| "js_string (JBool b) = (if b then ''true'' else ''false'')"
| "js_string (JNum s) = s"
| "js_string (JStr s) = s"
| "js_string (JArr xs) = join '','' (map (\<lambda>x. if x = JNull then [] else js_string x) xs)"
| "js_string (JObj kvs) = ''[object Object]''"

fun js_string_opt :: "json option \<Rightarrow> string" where
  "js_string_opt None = ''undefined''"
| "js_string_opt (Some v) = js_string v"

text \<open>
  \<^verbatim>\<open>v.k\<close>: a TypeError on \<^verbatim>\<open>null\<close>; on an object the value of the key (the last one
  when \<^verbatim>\<open>JSON.parse\<close> read the key twice); \<^verbatim>\<open>undefined\<close> on everything else, none of
  the keys read by this program being a property of a string, number, boolean or array.
\<close>

fun get_prop :: "json \<Rightarrow> string \<Rightarrow> error + json option" where
  "get_prop JNull k =
     Inl (TypeError (''Cannot read properties of null (reading '' @ [CHR 0x27] @ k @ [CHR 0x27] @ '')''))"
| "get_prop (JObj kvs) k = Inr (map_of (rev kvs) k)"
| "get_prop v k = Inr None"

text \<open>\<^verbatim>\<open>v?.k\<close>: \<^verbatim>\<open>undefined\<close> when \<open>v\<close> is \<^verbatim>\<open>null\<close> or \<^verbatim>\<open>undefined\<close>.\<close>

fun get_prop_chain :: "json option \<Rightarrow> string \<Rightarrow> json option" where
  "get_prop_chain None k = None"
| "get_prop_chain (Some JNull) k = None"
| "get_prop_chain (Some (JObj kvs)) k = map_of (rev kvs) k"
| "get_prop_chain (Some v) k = None"

subsection \<open>The state and the outside\<close>

text \<open>
  What the process does to the outside, in order: the calls of \<^verbatim>\<open>axios.get\<close>,
  \<^verbatim>\<open>axios.put\<close>, \<^verbatim>\<open>setTimeout\<close> and \<^verbatim>\<open>fs.writeFile\<close> with the values they are given.
  \<open>PUT url v\<close> and \<open>WRITE v\<close> hold the value \<open>v\<close> that is handed to \<^verbatim>\<open>JSON.stringify\<close>, not
  the text it becomes.
\<close>

datatype io =
    GET string
  | PUT string json
  | WAIT nat
  | WRITE json

text \<open>
  \<open>seen\<close> is the \<^verbatim>\<open>Set\<close> of line 43, in insertion order; \<open>trace\<close> the requests, timer
  waits and file writes made so far, oldest first; \<open>console_error\<close> the lines printed by
  \<^verbatim>\<open>console.error\<close>. The output of \<^verbatim>\<open>logStep\<close> and \<^verbatim>\<open>console.warn\<close> is not modelled.
\<close>

record world =
  seen :: "json list"
  trace :: "io list"
  console_error :: "(string \<times> error) list"

text \<open>
  The outside answers a request from what has happened so far, so that a server may fail
  twice and then succeed. \<open>FHIR_PROXY\<close> and \<open>FHIR_NODE_URL\<close> are the environment variables
  of lines 38 and 39, \<open>None\<close> when unset.
\<close>

record env =
  FHIR_PROXY :: "string option"
  FHIR_NODE_URL :: "string option"
  get_reply :: "io list \<Rightarrow> string \<Rightarrow> error + json"
  put_reply :: "io list \<Rightarrow> string \<Rightarrow> json \<Rightarrow> error + int"
  write_reply :: "io list \<Rightarrow> json \<Rightarrow> error option"

definition MAX_RETRIES :: nat where
  "MAX_RETRIES = 3"

definition env_string :: "string option \<Rightarrow> string" where
  "env_string v = (case v of None \<Rightarrow> ''undefined'' | Some s \<Rightarrow> s)"

definition axios_get :: "env \<Rightarrow> string \<Rightarrow> world \<Rightarrow> (error + json) \<times> world" where
  "axios_get e url w = (get_reply e (trace w) url, w\<lparr>trace := trace w @ [GET url]\<rparr>)"

definition axios_put :: "env \<Rightarrow> string \<Rightarrow> json \<Rightarrow> world \<Rightarrow> (error + int) \<times> world" where
  "axios_put e url resource w =
     (put_reply e (trace w) url resource, w\<lparr>trace := trace w @ [PUT url resource]\<rparr>)"

definition setTimeout :: "nat \<Rightarrow> world \<Rightarrow> world" where
  "setTimeout ms w = w\<lparr>trace := trace w @ [WAIT ms]\<rparr>"

subsection \<open>The set of seen identifiers (lines 42 to 54)\<close>

definition seen_has :: "json list \<Rightarrow> json \<Rightarrow> bool" where
  "seen_has s v = (is_primitive v \<and> v \<in> set s)"

definition seen_add :: "json \<Rightarrow> json list \<Rightarrow> json list" where
  "seen_add v s = (if seen_has s v then s else s @ [v])"

text \<open>
  What line 45 and 46 find on disk: no file, a file that cannot be read, a file that is
  not JSON, or a file that \<^verbatim>\<open>JSON.parse\<close> reads as a value.
\<close>

datatype seen_file = Missing | Unreadable | Corrupt | Parsed json

text \<open>
  \<^verbatim>\<open>new Set(v)\<close> takes the elements of an array and the characters of a string, is empty
  for \<^verbatim>\<open>null\<close> and throws on a value that is not iterable; the \<^verbatim>\<open>catch {}\<close> of line 48
  leaves the empty set of line 43 on every error.
\<close>

fun load_seen :: "seen_file \<Rightarrow> json list" where
  "load_seen Missing = []"
| "load_seen Unreadable = []"
| "load_seen Corrupt = []"
| "load_seen (Parsed (JArr xs)) = foldl (\<lambda>s v. seen_add v s) [] xs"
| "load_seen (Parsed (JStr cs)) = foldl (\<lambda>s v. seen_add v s) [] (map (\<lambda>c. JStr [c]) cs)"
| "load_seen (Parsed v) = []"

text \<open>
  \<^verbatim>\<open>saveSeen\<close>: the write is started and not awaited; its callback prints the error, if
  any, and nothing else. (The callback runs later; the model prints at once. The emoji
  that starts the line is left out.)
\<close>

definition saveSeen :: "env \<Rightarrow> world \<Rightarrow> world" where
  "saveSeen e w =
     (let content = JArr (seen w);
          w1 = w\<lparr>trace := trace w @ [WRITE content]\<rparr>
      in case write_reply e (trace w) content of
           None \<Rightarrow> w1
         | Some err \<Rightarrow> w1\<lparr>console_error := console_error w1 @ [(''Error guardando seen.json:'', err)]\<rparr>)"

subsection \<open>retryRequest\<close>

text \<open>
  Lines 56 to 71 of \<^verbatim>\<open>src/index.js\<close>. \<open>fn\<close> is the operation, \<open>attempt\<close> and \<open>lastErr\<close>
  the two variables of the loop.
\<close>

function retryRequest_loop ::
  "(world \<Rightarrow> (error + 'a) \<times> world) \<Rightarrow> nat \<Rightarrow> nat \<Rightarrow> error \<Rightarrow> world \<Rightarrow> (error + 'a) \<times> world"
where
  "retryRequest_loop fn maxRetries attempt lastErr w =
     (if attempt < maxRetries then
        (case fn w of
           (Inr v, w1) \<Rightarrow> (Inr v, w1)
         | (Inl err, w1) \<Rightarrow>
             retryRequest_loop fn maxRetries (attempt + 1) err (setTimeout (500 * (attempt + 1)) w1))
      else (Inl lastErr, w))"
  by pat_completeness auto
termination
  by (relation "measure (\<lambda>(fn, maxRetries, attempt, lastErr, w). maxRetries - attempt)") auto

definition retryRequest ::
  "(world \<Rightarrow> (error + 'a) \<times> world) \<Rightarrow> nat \<Rightarrow> world \<Rightarrow> (error + 'a) \<times> world"
where
  "retryRequest fn maxRetries w = retryRequest_loop fn maxRetries 0 Null w"

text \<open>
  Lines 87 to 113 of \<^verbatim>\<open>src/unnamed/part_000\<close>: the same loop, where the wait is under
  \<^verbatim>\<open>if (attempt < maxRetries)\<close>. After the loop, line 110 logs \<^verbatim>\<open>lastErr.message\<close>, which
  throws a TypeError when \<^verbatim>\<open>lastErr\<close> is still \<^verbatim>\<open>null\<close>.
\<close>

definition lastErr_logged :: "error \<Rightarrow> error" where
  "lastErr_logged lastErr =
     (case lastErr of
        Null \<Rightarrow>
          TypeError (''Cannot read properties of null (reading '' @ [CHR 0x27] @ ''message'' @
                     [CHR 0x27] @ '')'')
      | err \<Rightarrow> err)"

function retryRequest_loop_part_000 ::
  "(world \<Rightarrow> (error + 'a) \<times> world) \<Rightarrow> nat \<Rightarrow> nat \<Rightarrow> error \<Rightarrow> world \<Rightarrow> (error + 'a) \<times> world"
where
  "retryRequest_loop_part_000 fn maxRetries attempt lastErr w =
     (if attempt < maxRetries then
        (case fn w of
           (Inr v, w1) \<Rightarrow> (Inr v, w1)
         | (Inl err, w1) \<Rightarrow>
             retryRequest_loop_part_000 fn maxRetries (attempt + 1) err
               (if attempt + 1 < maxRetries then setTimeout (500 * (attempt + 1)) w1 else w1))
      else (Inl (lastErr_logged lastErr), w))"
  by pat_completeness auto
termination
  by (relation "measure (\<lambda>(fn, maxRetries, attempt, lastErr, w). maxRetries - attempt)") auto

declare retryRequest_loop.simps [simp del] retryRequest_loop_part_000.simps [simp del]

definition retryRequest_part_000 ::
  "(world \<Rightarrow> (error + 'a) \<times> world) \<Rightarrow> nat \<Rightarrow> world \<Rightarrow> (error + 'a) \<times> world"
where
  "retryRequest_part_000 fn maxRetries w = retryRequest_loop_part_000 fn maxRetries 0 Null w"

subsection \<open>Reading from the proxy, writing to the node (lines 78 to 95)\<close>

definition proxy_url :: "env \<Rightarrow> string \<Rightarrow> string" where
  "proxy_url e path = env_string (FHIR_PROXY e) @ ''/fhir'' @ path"

definition getFromProxy :: "env \<Rightarrow> string \<Rightarrow> world \<Rightarrow> (error + json) \<times> world" where
  "getFromProxy e path w = axios_get e (proxy_url e path) w"

type_synonym retry =
  "(world \<Rightarrow> (error + int) \<times> world) \<Rightarrow> nat \<Rightarrow> world \<Rightarrow> (error + int) \<times> world"

text \<open>
  \<^verbatim>\<open>putToNode\<close>, with the retry function it calls as a parameter: the one of
  \<^verbatim>\<open>src/index.js\<close> or the one of \<^verbatim>\<open>src/unnamed/part_000\<close>. Reading
  \<^verbatim>\<open>resource.resourceType\<close> throws when the resource is \<^verbatim>\<open>null\<close>, before any request.
\<close>

definition node_url :: "env \<Rightarrow> json option \<Rightarrow> json option \<Rightarrow> string" where
  "node_url e resourceType rid =
     env_string (FHIR_NODE_URL e) @ ''/fhir/'' @ js_string_opt resourceType @ ''/'' @ js_string_opt rid"

definition putToNode_with :: "retry \<Rightarrow> env \<Rightarrow> json \<Rightarrow> world \<Rightarrow> (error + int) \<times> world" where
  "putToNode_with rr e resource w =
     (case get_prop resource ''resourceType'' of
        Inl err \<Rightarrow> (Inl err, w)
      | Inr resourceType \<Rightarrow>
          (case get_prop resource ''id'' of
             Inl err \<Rightarrow> (Inl err, w)
           | Inr rid \<Rightarrow> rr (axios_put e (node_url e resourceType rid) resource) MAX_RETRIES w))"

subsection \<open>The handler of POST /event (lines 97 to 170)\<close>

text \<open>\<^verbatim>\<open>s.split('/').pop()\<close>: what follows the last slash, all of \<open>s\<close> when it has none.\<close>

definition last_segment :: "string \<Rightarrow> string" where
  "last_segment s = rev (takeWhile (\<lambda>c. c \<noteq> CHR ''/'') (rev s))"

text \<open>
  Line 122, \<^verbatim>\<open>encounter.subject?.reference?.split('/').pop()\<close>: \<^verbatim>\<open>undefined\<close> when the
  subject or its reference is \<^verbatim>\<open>null\<close> or \<^verbatim>\<open>undefined\<close>; a reference that is not a string
  has no \<^verbatim>\<open>split\<close>, and calling it throws.
\<close>

definition subject_reference :: "json \<Rightarrow> error + json option" where
  "subject_reference encounter =
     (case get_prop encounter ''subject'' of
        Inl err \<Rightarrow> Inl err
      | Inr subject \<Rightarrow> Inr (get_prop_chain subject ''reference''))"

definition patientId :: "json \<Rightarrow> error + string option" where
  "patientId encounter =
     (case subject_reference encounter of
        Inl err \<Rightarrow> Inl err
      | Inr None \<Rightarrow> Inr None
      | Inr (Some JNull) \<Rightarrow> Inr None
      | Inr (Some (JStr s)) \<Rightarrow> Inr (Some (last_segment s))
      | Inr (Some v) \<Rightarrow> Inl (TypeError ''encounter.subject?.reference?.split is not a function''))"

text \<open>Lines 132 to 144.\<close>

definition resourceTypes :: "string list" where
  "resourceTypes =
     [''Observation'', ''Condition'', ''Procedure'', ''MedicationRequest'', ''Medication'',
      ''AllergyIntolerance'', ''DiagnosticReport'', ''Immunization'', ''CarePlan'',
      ''Appointment'', ''DocumentReference'']"

definition resourceQueries :: "json \<Rightarrow> (string \<times> string) list" where
  "resourceQueries uuid =
     map (\<lambda>t. (t, ''/'' @ t @ ''?encounter='' @ js_string uuid)) resourceTypes"

text \<open>
  Line 152: the resource of an entry when it has a truthy \<^verbatim>\<open>resourceType\<close> and a truthy
  \<^verbatim>\<open>id\<close>, \<open>None\<close> when the entry is passed over. Reading \<^verbatim>\<open>entry.resource\<close> throws on
  a \<^verbatim>\<open>null\<close> entry.
\<close>

definition entry_resource :: "json \<Rightarrow> error + json option" where
  "entry_resource entry =
     (case get_prop entry ''resource'' of
        Inl err \<Rightarrow> Inl err
      | Inr resource \<Rightarrow>
          if truthy_opt (get_prop_chain resource ''resourceType'') \<and>
             truthy_opt (get_prop_chain resource ''id'')
          then Inr resource else Inr None)"

text \<open>
  \<^verbatim>\<open>for (const entry of bundle.entry)\<close> on a truthy value: the elements of an array, the
  characters of a string, a TypeError on a number, \<^verbatim>\<open>true\<close> or an object.
\<close>

fun iterate :: "json \<Rightarrow> error + json list" where
  "iterate (JArr xs) = Inr xs"
| "iterate (JStr cs) = Inr (map (\<lambda>c. JStr [c]) cs)"
| "iterate v = Inl (TypeError ''bundle.entry is not iterable'')"

text \<open>
  Lines 151 to 156. The first component of the result is the error that left the loop,
  if any; \<open>results\<close> is the array of line 111, which keeps what was pushed before a throw.
\<close>

fun deliver_entries ::
  "retry \<Rightarrow> env \<Rightarrow> json list \<Rightarrow> int list \<Rightarrow> world \<Rightarrow> error option \<times> int list \<times> world"
where
  "deliver_entries rr e [] results w = (None, results, w)"
| "deliver_entries rr e (entry # entries) results w =
     (case entry_resource entry of
        Inl err \<Rightarrow> (Some err, results, w)
      | Inr None \<Rightarrow> deliver_entries rr e entries results w
      | Inr (Some resource) \<Rightarrow>
          (case putToNode_with rr e resource w of
             (Inl err, w1) \<Rightarrow> (Some err, results, w1)
           | (Inr status, w1) \<Rightarrow> deliver_entries rr e entries (results @ [status]) w1))"

text \<open>Lines 147 to 159, the body of the inner \<^verbatim>\<open>try\<close>.\<close>

definition related_try ::
  "retry \<Rightarrow> env \<Rightarrow> string \<Rightarrow> int list \<Rightarrow> world \<Rightarrow> error option \<times> int list \<times> world"
where
  "related_try rr e q results w =
     (case getFromProxy e q w of
        (Inl err, w1) \<Rightarrow> (Some err, results, w1)
      | (Inr bundle, w1) \<Rightarrow>
          (case get_prop bundle ''entry'' of
             Inl err \<Rightarrow> (Some err, results, w1)
           | Inr None \<Rightarrow> (None, results, w1)
           | Inr (Some entry) \<Rightarrow>
               if truthy entry then
                 (case iterate entry of
                    Inl err \<Rightarrow> (Some err, results, w1)
                  | Inr entries \<Rightarrow> deliver_entries rr e entries results w1)
               else (None, results, w1)))"

text \<open>Lines 146 to 162: the \<^verbatim>\<open>catch (e)\<close> of line 160 logs the error and drops it.\<close>

definition related_step ::
  "retry \<Rightarrow> env \<Rightarrow> string \<Rightarrow> int list \<Rightarrow> world \<Rightarrow> int list \<times> world"
where
  "related_step rr e q results w =
     (case related_try rr e q results w of (caught, results1, w1) \<Rightarrow> (results1, w1))"

text \<open>Lines 145 to 163.\<close>

fun related_loop ::
  "retry \<Rightarrow> env \<Rightarrow> (string \<times> string) list \<Rightarrow> int list \<Rightarrow> world \<Rightarrow> int list \<times> world"
where
  "related_loop rr e [] results w = (results, w)"
| "related_loop rr e ((type, q) # queries) results w =
     (case related_step rr e q results w of
        (results1, w1) \<Rightarrow> related_loop rr e queries results1 w1)"

text \<open>Lines 121 to 129.\<close>

definition patient_step ::
  "retry \<Rightarrow> env \<Rightarrow> json \<Rightarrow> int list \<Rightarrow> world \<Rightarrow> error option \<times> int list \<times> world"
where
  "patient_step rr e encounter results w =
     (case patientId encounter of
        Inl err \<Rightarrow> (Some err, results, w)
      | Inr None \<Rightarrow> (None, results, w)
      | Inr (Some pid) \<Rightarrow>
          if pid \<noteq> [] then
            (case getFromProxy e (''/Patient/'' @ pid) w of
               (Inl err, w1) \<Rightarrow> (Some err, results, w1)
             | (Inr patient, w1) \<Rightarrow>
                 (case putToNode_with rr e patient w1 of
                    (Inl err, w2) \<Rightarrow> (Some err, results, w2)
                  | (Inr status, w2) \<Rightarrow> (None, results @ [status], w2)))
          else (None, results, w))"

text \<open>
  Lines 111 to 164, the body of the outer \<^verbatim>\<open>try\<close>, from the empty \<open>results\<close>: the error
  that reaches the \<^verbatim>\<open>catch\<close> of line 166, if any, with \<open>results\<close> as it is then.
\<close>

definition process_event ::
  "retry \<Rightarrow> env \<Rightarrow> json \<Rightarrow> world \<Rightarrow> error option \<times> int list \<times> world"
where
  "process_event rr e uuid w =
     (case getFromProxy e (''/Encounter/'' @ js_string uuid) w of
        (Inl err, w1) \<Rightarrow> (Some err, [], w1)
      | (Inr encounter, w1) \<Rightarrow>
          (case putToNode_with rr e encounter w1 of
             (Inl err, w2) \<Rightarrow> (Some err, [], w2)
           | (Inr status, w2) \<Rightarrow>
               (case patient_step rr e encounter [status] w2 of
                  (Some err, results, w3) \<Rightarrow> (Some err, results, w3)
                | (None, results, w3) \<Rightarrow>
                    (case related_loop rr e (resourceQueries uuid) results w3 of
                       (results1, w4) \<Rightarrow> (None, results1, w4)))))"

text \<open>
  A response is its status and its JSON body; \<^verbatim>\<open>res.json\<close> alone answers 200.
\<close>

datatype response = Response nat json

text \<open>Lines 108 and 109: the identifier is added to the set and the set is saved.\<close>

definition admit :: "env \<Rightarrow> json \<Rightarrow> world \<Rightarrow> world" where
  "admit e uuid w = saveSeen e (w\<lparr>seen := seen_add uuid (seen w)\<rparr>)"

text \<open>
  Lines 166 to 169. Reading \<^verbatim>\<open>err.message\<close> throws when what was caught is \<^verbatim>\<open>null\<close>:
  the handler then ends without a response, which is \<open>None\<close>.
\<close>

definition error_response :: "error \<Rightarrow> response option" where
  "error_response err =
     (case message err of
        None \<Rightarrow> None
      | Some m \<Rightarrow> Some (Response 500 (JObj [(''error'', JStr m)])))"

text \<open>Line 165. The body is the object handed to \<^verbatim>\<open>res.json\<close>.\<close>

definition ok_response :: "json \<Rightarrow> int list \<Rightarrow> response" where
  "ok_response uuid results =
     Response 200
       (JObj [(''status'', JStr ''ok''), (''uuid'', uuid), (''sent'', JNum (digits (length results)))])"

definition respond :: "json \<Rightarrow> error option \<times> int list \<times> world \<Rightarrow> response option \<times> world" where
  "respond uuid outcome =
     (case outcome of
        (None, results, w) \<Rightarrow> (Some (ok_response uuid results), w)
      | (Some err, results, w) \<Rightarrow> (error_response err, w))"

text \<open>Lines 101 and 104.\<close>

definition missing_response :: response where
  "missing_response = Response 400 (JObj [(''error'', JStr ''Falta uuid'')])"

definition duplicate_response :: "json \<Rightarrow> response" where
  "duplicate_response uuid = Response 200 (JObj [(''status'', JStr ''duplicado''), (''uuid'', uuid)])"

text \<open>
  The handler. \<open>body_uuid\<close> is \<^verbatim>\<open>req.body.uuid\<close>, \<open>None\<close> when the body has no such key.
\<close>

definition post_event_with :: "retry \<Rightarrow> env \<Rightarrow> json option \<Rightarrow> world \<Rightarrow> response option \<times> world" where
  "post_event_with rr e body_uuid w =
     (case body_uuid of
        None \<Rightarrow> (Some missing_response, w)
      | Some uuid \<Rightarrow>
          if \<not> truthy uuid then (Some missing_response, w)
          else if seen_has (seen w) uuid then (Some (duplicate_response uuid), w)
          else respond uuid (process_event rr e uuid (admit e uuid w)))"

text \<open>The handler of \<^verbatim>\<open>src/index.js\<close> and the one of \<^verbatim>\<open>src/unnamed/part_000\<close>.\<close>

definition putToNode :: "env \<Rightarrow> json \<Rightarrow> world \<Rightarrow> (error + int) \<times> world" where
  "putToNode = putToNode_with retryRequest"

definition post_event :: "env \<Rightarrow> json option \<Rightarrow> world \<Rightarrow> response option \<times> world" where
  "post_event = post_event_with retryRequest"

definition post_event_part_000 :: "env \<Rightarrow> json option \<Rightarrow> world \<Rightarrow> response option \<times> world" where
  "post_event_part_000 = post_event_with retryRequest_part_000"


subsection \<open>A concrete run\<close>

text \<open>
  The scenario of the specification (section 8): the event \<^verbatim>\<open>enc-1\<close>, whose Encounter
  names the subject \<^verbatim>\<open>Patient/pat-1\<close>; the Observation query returns two records, the
  Condition query fails, every other query returns a bundle without entries. The node
  accepts every request and the file is written.
\<close>

definition world0 :: world where
  "world0 = \<lparr>seen = [], trace = [], console_error = []\<rparr>"

definition encounter1 :: json where
  "encounter1 =
     JObj [(''resourceType'', JStr ''Encounter''), (''id'', JStr ''enc-1''),
           (''subject'', JObj [(''reference'', JStr ''Patient/pat-1'')])]"

definition patient1 :: json where
  "patient1 = JObj [(''resourceType'', JStr ''Patient''), (''id'', JStr ''pat-1'')]"

definition observation :: "string \<Rightarrow> json" where
  "observation i = JObj [(''resourceType'', JStr ''Observation''), (''id'', JStr i)]"

definition observations1 :: json where
  "observations1 =
     JObj [(''resourceType'', JStr ''Bundle''),
           (''entry'', JArr [JObj [(''resource'', observation ''o1'')],
                             JObj [(''resource'', observation ''o2'')]])]"

definition proxy1 :: "io list \<Rightarrow> string \<Rightarrow> error + json" where
  "proxy1 h url =
     (if url = ''http://proxy/fhir/Encounter/enc-1'' then Inr encounter1
      else if url = ''http://proxy/fhir/Patient/pat-1'' then Inr patient1
      else if url = ''http://proxy/fhir/Observation?encounter=enc-1'' then Inr observations1
      else if url = ''http://proxy/fhir/Condition?encounter=enc-1''
        then Inl (AxiosError ''Request failed with status code 500'')
      else Inr (JObj [(''resourceType'', JStr ''Bundle'')]))"

definition env1 :: env where
  "env1 =
     \<lparr>FHIR_PROXY = Some ''http://proxy'', FHIR_NODE_URL = Some ''http://node'',
      get_reply = proxy1,
      put_reply = (\<lambda>h url resource. Inr 200),
      write_reply = (\<lambda>h content. None)\<rparr>"

subsection \<open>Words for the statements\<close>

text \<open>
  What \<open>k\<close> failed attempts leave in the trace when \<open>attempt\<close> was \<open>a\<close> before the first
  of them: each request, then the wait that line 67 makes after it.
\<close>

definition failed_attempts :: "string \<Rightarrow> json \<Rightarrow> nat \<Rightarrow> nat \<Rightarrow> io list" where
  "failed_attempts url r a k =
     concat (map (\<lambda>i. [PUT url r, WAIT (500 * i)]) [Suc a..<Suc (a + k)])"

text \<open>A node that refuses every request, each time with another message.\<close>

fun is_PUT :: "io \<Rightarrow> bool" where
  "is_PUT (PUT url resource) = True"
| "is_PUT x = False"

definition node_failing :: "io list \<Rightarrow> string \<Rightarrow> json \<Rightarrow> error + int" where
  "node_failing h url resource =
     Inl (AxiosError (''failure '' @ digits (Suc (length (filter is_PUT h)))))"

definition env_node_failing :: env where
  "env_node_failing = env1\<lparr>put_reply := node_failing\<rparr>"

text \<open>The state \<open>w'\<close> is \<open>w\<close> with more in its trace, and nothing else changed.\<close>

definition grows :: "world \<Rightarrow> world \<Rightarrow> bool" where
  "grows w w' = (\<exists>tr. w' = w\<lparr>trace := trace w @ tr\<rparr>)"

text \<open>Variations of the scenario: a proxy that cannot be reached,\<close>

definition env_proxy_down :: env where
  "env_proxy_down = env1\<lparr>get_reply := (\<lambda>h url. Inl (AxiosError ''connect ECONNREFUSED''))\<rparr>"

text \<open>an Encounter without a subject,\<close>

definition encounter0 :: json where
  "encounter0 = JObj [(''resourceType'', JStr ''Encounter''), (''id'', JStr ''enc-1'')]"

definition env_no_subject :: env where
  "env_no_subject =
     env1\<lparr>get_reply :=
       (\<lambda>h url. if url = ''http://proxy/fhir/Encounter/enc-1'' then Inr encounter0 else proxy1 h url)\<rparr>"

text \<open>a Patient that the proxy does not find, a Patient that the node refuses,\<close>

definition env_patient_missing :: env where
  "env_patient_missing =
     env1\<lparr>get_reply :=
       (\<lambda>h url. if url = ''http://proxy/fhir/Patient/pat-1''
          then Inl (AxiosError ''Request failed with status code 404'') else proxy1 h url)\<rparr>"

definition env_patient_refused :: env where
  "env_patient_refused =
     env1\<lparr>put_reply :=
       (\<lambda>h url resource. if url = ''http://node/fhir/Patient/pat-1''
          then Inl (AxiosError ''Request failed with status code 400'') else Inr 200)\<rparr>"

text \<open>three Observations of which the node refuses the second,\<close>

definition observations3 :: json where
  "observations3 =
     JObj [(''resourceType'', JStr ''Bundle''),
           (''entry'', JArr [JObj [(''resource'', observation ''o1'')],
                             JObj [(''resource'', observation ''o2'')],
                             JObj [(''resource'', observation ''o3'')]])]"

definition env_observation_refused :: env where
  "env_observation_refused =
     env1\<lparr>get_reply :=
       (\<lambda>h url. if url = ''http://proxy/fhir/Observation?encounter=enc-1''
          then Inr observations3 else proxy1 h url),
      put_reply :=
       (\<lambda>h url resource. if url = ''http://node/fhir/Observation/o2''
          then Inl (AxiosError ''Request failed with status code 422'') else Inr 200)\<rparr>"

text \<open>and a disk that is full.\<close>

definition env_disk_full :: env where
  "env_disk_full =
     env1\<lparr>write_reply := (\<lambda>h content. Some (SystemError ''ENOSPC: no space left on device''))\<rparr>"

text \<open>An entry that line 152 lets through to the node.\<close>

definition deliverable :: "json \<Rightarrow> bool" where
  "deliverable entry = (case entry_resource entry of Inr (Some resource) \<Rightarrow> True | _ \<Rightarrow> False)"

text \<open>The requests to the proxy in a trace.\<close>

fun is_GET :: "io \<Rightarrow> bool" where
  "is_GET (GET url) = True"
| "is_GET x = False"

definition gets :: "world \<Rightarrow> io list" where
  "gets w = filter is_GET (trace w)"

text \<open>A node that fails twice and then accepts.\<close>

definition env_node_flaky :: env where
  "env_node_flaky =
     env1\<lparr>put_reply :=
       (\<lambda>h url resource. if length (filter is_PUT h) < 2
          then Inl (AxiosError ''socket hang up'') else Inr 200)\<rparr>"

text \<open>The state with another content of the console.\<close>

definition set_console :: "(string \<times> error) list \<Rightarrow> world \<Rightarrow> world" where
  "set_console c w = w\<lparr>console_error := c\<rparr>"

section \<open>Properties\<close>

subsection \<open>Validation of the identifier\<close>

text \<open>
  C10. The test of line 101 is \<^verbatim>\<open>!uuid\<close>: an identifier that is absent, \<^verbatim>\<open>null\<close>,
  \<^verbatim>\<open>false\<close>, \<open>0\<close> or the empty string is answered 400 \<^verbatim>\<open>Falta uuid\<close> by the handler
  itself, in \<^verbatim>\<open>src/index.js\<close> and in \<^verbatim>\<open>src/unnamed/part_000\<close> alike, and the state is
  left as it was: nothing is added to the set of seen identifiers, no file is written and
  no request is made.
\<close>

theorem falsy_uuid_rejected:
  assumes "\<not> truthy_opt body_uuid"
  shows "post_event e body_uuid w = (Some (Response 400 (JObj [(''error'', JStr ''Falta uuid'')])), w) \<and>
         post_event_part_000 e body_uuid w =
           (Some (Response 400 (JObj [(''error'', JStr ''Falta uuid'')])), w)"
  using assms
  by (cases body_uuid)
     (simp_all add: post_event_def post_event_part_000_def post_event_with_def missing_response_def)

theorem falsy_uuid_rejected_witness:
  "\<not> truthy_opt (Some (JStr [])) \<and> \<not> truthy_opt (Some (JNum ''0'')) \<and>
   post_event env1 (Some (JStr [])) world0 =
     (Some (Response 400 (JObj [(''error'', JStr ''Falta uuid'')])), world0) \<and>
   post_event env1 (Some (JNum ''0'')) world0 =
     (Some (Response 400 (JObj [(''error'', JStr ''Falta uuid'')])), world0) \<and>
   post_event_part_000 env1 (Some (JStr [])) world0 =
     (Some (Response 400 (JObj [(''error'', JStr ''Falta uuid'')])), world0)"
  using falsy_uuid_rejected [of "Some (JStr [])" env1 world0]
        falsy_uuid_rejected [of "Some (JNum ''0'')" env1 world0]
  by simp

subsection \<open>The retry loop\<close>

lemma failed_attempts_0 [simp]: "failed_attempts url r a 0 = []"
  by (simp add: failed_attempts_def)

lemma failed_attempts_Suc:
  "failed_attempts url r a (Suc k) = PUT url r # WAIT (500 * Suc a) # failed_attempts url r (Suc a) k"
  by (simp add: failed_attempts_def upt_conv_Cons del: upt_Suc)

lemma failed_attempts_snoc:
  "failed_attempts url r a (Suc k) = failed_attempts url r a k @ [PUT url r, WAIT (500 * Suc (a + k))]"
  by (simp add: failed_attempts_def)

lemma loop_unfold_fail:
  "attempt < maxRetries \<Longrightarrow> fn w = (Inl err, w1) \<Longrightarrow>
   retryRequest_loop fn maxRetries attempt lastErr w =
     retryRequest_loop fn maxRetries (Suc attempt) err (setTimeout (500 * Suc attempt) w1)"
  by (subst retryRequest_loop.simps) simp

lemma loop_unfold_ok:
  "attempt < maxRetries \<Longrightarrow> fn w = (Inr v, w1) \<Longrightarrow>
   retryRequest_loop fn maxRetries attempt lastErr w = (Inr v, w1)"
  by (subst retryRequest_loop.simps) simp

lemma loop_unfold_done:
  "\<not> attempt < maxRetries \<Longrightarrow> retryRequest_loop fn maxRetries attempt lastErr w = (Inl lastErr, w)"
  by (subst retryRequest_loop.simps) simp

lemma put_then_wait:
  "setTimeout ms (snd (axios_put e url r w)) = w\<lparr>trace := trace w @ [PUT url r, WAIT ms]\<rparr>"
  by (simp add: setTimeout_def axios_put_def)



lemma loop_exhausted:
  "a + Suc k = N \<Longrightarrow> retryRequest_loop fn N a le w = (Inl err, w') \<Longrightarrow>
   \<exists>wl wl'. fn wl = (Inl err, wl') \<and> w' = setTimeout (500 * N) wl'"
proof (induction k arbitrary: a le w)
  case 0
  obtain res w1 where fnw: "fn w = (res, w1)" by (cases "fn w")
  show ?case
  proof (cases res)
    case (Inr v)
    with fnw 0 show ?thesis by (simp add: loop_unfold_ok)
  next
    case (Inl e1)
    with fnw 0 have "retryRequest_loop fn N (Suc a) e1 (setTimeout (500 * Suc a) w1) = (Inl err, w')"
      by (simp add: loop_unfold_fail)
    with 0 have "err = e1" "w' = setTimeout (500 * N) w1"
      by (auto simp: loop_unfold_done)
    with fnw Inl show ?thesis by blast
  qed
next
  case (Suc k)
  obtain res w1 where fnw: "fn w = (res, w1)" by (cases "fn w")
  show ?case
  proof (cases res)
    case (Inr v)
    with fnw Suc.prems show ?thesis by (simp add: loop_unfold_ok)
  next
    case (Inl e1)
    with fnw Suc.prems
    have "retryRequest_loop fn N (Suc a) e1 (setTimeout (500 * Suc a) w1) = (Inl err, w')"
      by (simp add: loop_unfold_fail)
    moreover have "Suc a + Suc k = N" using Suc.prems(1) by simp
    ultimately show ?thesis by (rule Suc.IH [rotated])
  qed
qed

lemma loop_part_000_unfold_fail:
  "attempt < maxRetries \<Longrightarrow> fn w = (Inl err, w1) \<Longrightarrow>
   retryRequest_loop_part_000 fn maxRetries attempt lastErr w =
     retryRequest_loop_part_000 fn maxRetries (Suc attempt) err
       (if Suc attempt < maxRetries then setTimeout (500 * Suc attempt) w1 else w1)"
  by (subst retryRequest_loop_part_000.simps) simp

lemma loop_part_000_unfold_ok:
  "attempt < maxRetries \<Longrightarrow> fn w = (Inr v, w1) \<Longrightarrow>
   retryRequest_loop_part_000 fn maxRetries attempt lastErr w = (Inr v, w1)"
  by (subst retryRequest_loop_part_000.simps) simp

lemma loop_part_000_unfold_done:
  "\<not> attempt < maxRetries \<Longrightarrow>
   retryRequest_loop_part_000 fn maxRetries attempt lastErr w = (Inl (lastErr_logged lastErr), w)"
  by (subst retryRequest_loop_part_000.simps) simp

lemma loop_part_000_succeeds:
  "a + k < N \<Longrightarrow>
   \<forall>i<k. isl (put_reply e (trace w @ failed_attempts url r a i) url r) \<Longrightarrow>
   put_reply e (trace w @ failed_attempts url r a k) url r = Inr s \<Longrightarrow>
   retryRequest_loop_part_000 (axios_put e url r) N a le w =
     (Inr s, w\<lparr>trace := trace w @ failed_attempts url r a k @ [PUT url r]\<rparr>)"
proof (induction k arbitrary: a le w)
  case 0
  then show ?case by (simp add: loop_part_000_unfold_ok axios_put_def)
next
  case (Suc k)
  from Suc.prems(2) have "isl (put_reply e (trace w @ failed_attempts url r a 0) url r)" by blast
  then obtain err where err: "put_reply e (trace w) url r = Inl err"
    by (cases "put_reply e (trace w) url r") auto
  let ?w = "w\<lparr>trace := trace w @ [PUT url r, WAIT (500 * Suc a)]\<rparr>"
  have step: "retryRequest_loop_part_000 (axios_put e url r) N a le w =
      retryRequest_loop_part_000 (axios_put e url r) N (Suc a) err ?w"
    using Suc.prems(1) err
    by (subst loop_part_000_unfold_fail [where err = err and ?w1.0 = "w\<lparr>trace := trace w @ [PUT url r]\<rparr>"])
       (simp_all add: axios_put_def setTimeout_def)
  have "retryRequest_loop_part_000 (axios_put e url r) N (Suc a) err ?w =
     (Inr s, ?w\<lparr>trace := trace ?w @ failed_attempts url r (Suc a) k @ [PUT url r]\<rparr>)"
  proof (rule Suc.IH)
    show "Suc a + k < N" using Suc.prems(1) by simp
    show "\<forall>i<k. isl (put_reply e (trace ?w @ failed_attempts url r (Suc a) i) url r)"
      using Suc.prems(2) by (auto simp: failed_attempts_Suc dest: spec [where x = "Suc i" for i])
    show "put_reply e (trace ?w @ failed_attempts url r (Suc a) k) url r = Inr s"
      using Suc.prems(3) by (simp add: failed_attempts_Suc)
  qed
  with step show ?case by (simp add: failed_attempts_Suc)
qed

lemma loop_part_000_all_fail:
  "a + Suc k = N \<Longrightarrow>
   \<forall>i<Suc k. isl (put_reply e (trace w @ failed_attempts url r a i) url r) \<Longrightarrow>
   retryRequest_loop_part_000 (axios_put e url r) N a le w =
     (Inl (lastErr_logged (projl (put_reply e (trace w @ failed_attempts url r a k) url r))),
      w\<lparr>trace := trace w @ failed_attempts url r a k @ [PUT url r]\<rparr>)"
proof (induction k arbitrary: a le w)
  case 0
  then obtain err where err: "put_reply e (trace w) url r = Inl err"
    by (cases "put_reply e (trace w) url r") auto
  have "retryRequest_loop_part_000 (axios_put e url r) N a le w =
      retryRequest_loop_part_000 (axios_put e url r) N (Suc a) err (w\<lparr>trace := trace w @ [PUT url r]\<rparr>)"
    using "0.prems"(1) err
    by (subst loop_part_000_unfold_fail [where err = err and ?w1.0 = "w\<lparr>trace := trace w @ [PUT url r]\<rparr>"])
       (auto simp: axios_put_def)
  with "0.prems"(1) err show ?case by (simp add: loop_part_000_unfold_done)
next
  case (Suc k)
  from Suc.prems(2) have "isl (put_reply e (trace w @ failed_attempts url r a 0) url r)" by blast
  then obtain err where err: "put_reply e (trace w) url r = Inl err"
    by (cases "put_reply e (trace w) url r") auto
  let ?w = "w\<lparr>trace := trace w @ [PUT url r, WAIT (500 * Suc a)]\<rparr>"
  have step: "retryRequest_loop_part_000 (axios_put e url r) N a le w =
      retryRequest_loop_part_000 (axios_put e url r) N (Suc a) err ?w"
    using Suc.prems(1) err
    by (subst loop_part_000_unfold_fail [where err = err and ?w1.0 = "w\<lparr>trace := trace w @ [PUT url r]\<rparr>"])
       (auto simp: axios_put_def setTimeout_def)
  have "retryRequest_loop_part_000 (axios_put e url r) N (Suc a) err ?w =
     (Inl (lastErr_logged (projl (put_reply e (trace ?w @ failed_attempts url r (Suc a) k) url r))),
      ?w\<lparr>trace := trace ?w @ failed_attempts url r (Suc a) k @ [PUT url r]\<rparr>)"
  proof (rule Suc.IH)
    show "Suc a + Suc k = N" using Suc.prems(1) by simp
    show "\<forall>i<Suc k. isl (put_reply e (trace ?w @ failed_attempts url r (Suc a) i) url r)"
      using Suc.prems(2) by (auto simp: failed_attempts_Suc dest: spec [where x = "Suc i" for i])
  qed
  with step show ?case by (simp add: failed_attempts_Suc)
qed


lemma retryRequest_part_000_succeeds:
  assumes "k < N"
    and "\<forall>i<k. isl (put_reply e (trace w @ failed_attempts url r 0 i) url r)"
    and "put_reply e (trace w @ failed_attempts url r 0 k) url r = Inr s"
  shows "retryRequest_part_000 (axios_put e url r) N w =
           (Inr s, w\<lparr>trace := trace w @ failed_attempts url r 0 k @ [PUT url r]\<rparr>)"
  unfolding retryRequest_part_000_def using assms by (intro loop_part_000_succeeds) simp_all


lemma retryRequest_part_000_all_fail:
  assumes "\<forall>i<Suc k. isl (put_reply e (trace w @ failed_attempts url r 0 i) url r)"
  shows "retryRequest_part_000 (axios_put e url r) (Suc k) w =
           (Inl (lastErr_logged (projl (put_reply e (trace w @ failed_attempts url r 0 k) url r))),
            w\<lparr>trace := trace w @ failed_attempts url r 0 k @ [PUT url r]\<rparr>)"
  unfolding retryRequest_part_000_def using assms by (intro loop_part_000_all_fail) simp_all

text \<open>
  C1. Both loops make \<open>k + 1\<close> attempts when the operation fails \<open>k < N\<close> times and then
  succeeds, and \<open>N\<close> attempts when it always fails (the four lemmas above). The waits
  differ. With \<open>N = 3\<close> and a node that refuses every request, \<^verbatim>\<open>retryRequest\<close> of
  \<^verbatim>\<open>src/index.js\<close> waits 500, 1000 and 1500 ms: line 67 waits after the third and last
  attempt too, before line 70 throws. \<^verbatim>\<open>retryRequest\<close> of \<^verbatim>\<open>src/unnamed/part_000\<close>,
  whose wait is under \<^verbatim>\<open>if (attempt < maxRetries)\<close>, waits 500 and 1000 ms, as the
  claim says.
\<close>

theorem retryRequest_waits_after_last_attempt:
  "retryRequest (axios_put env_node_failing ''http://node/fhir/Patient/pat-1'' patient1) 3 world0 =
     (Inl (AxiosError ''failure 3''),
      world0\<lparr>trace :=
        [PUT ''http://node/fhir/Patient/pat-1'' patient1, WAIT 500,
         PUT ''http://node/fhir/Patient/pat-1'' patient1, WAIT 1000,
         PUT ''http://node/fhir/Patient/pat-1'' patient1, WAIT 1500]\<rparr>) \<and>
   retryRequest_part_000 (axios_put env_node_failing ''http://node/fhir/Patient/pat-1'' patient1) 3 world0 =
     (Inl (AxiosError ''failure 3''),
      world0\<lparr>trace :=
        [PUT ''http://node/fhir/Patient/pat-1'' patient1, WAIT 500,
         PUT ''http://node/fhir/Patient/pat-1'' patient1, WAIT 1000,
         PUT ''http://node/fhir/Patient/pat-1'' patient1]\<rparr>)"
  by code_simp

text \<open>
  C7. When \<^verbatim>\<open>retryRequest\<close> throws after \<open>N > 0\<close> attempts, what it throws is the error
  of one call of the operation, and the state it leaves is the state after that call
  followed by the last wait alone: the call is the last one. Nothing of the earlier
  errors is in the result.
\<close>

theorem retryRequest_throws_last_error:
  assumes "retryRequest fn N w = (Inl err, w')" and "0 < N"
  shows "\<exists>wl wl'. fn wl = (Inl err, wl') \<and> w' = setTimeout (500 * N) wl'"
proof -
  from assms(2) obtain k where "0 + Suc k = N" by (cases N) auto
  then show ?thesis using assms(1) unfolding retryRequest_def by (rule loop_exhausted)
qed

theorem retryRequest_throws_last_error_witness:
  "retryRequest (axios_put env_node_failing ''http://node/fhir/Patient/pat-1'' patient1) 3 world0 =
     (Inl (AxiosError ''failure 3''),
      world0\<lparr>trace :=
        [PUT ''http://node/fhir/Patient/pat-1'' patient1, WAIT 500,
         PUT ''http://node/fhir/Patient/pat-1'' patient1, WAIT 1000,
         PUT ''http://node/fhir/Patient/pat-1'' patient1, WAIT 1500]\<rparr>) \<and>
   (\<exists>wl wl'. axios_put env_node_failing ''http://node/fhir/Patient/pat-1'' patient1 wl =
                (Inl (AxiosError ''failure 3''), wl') \<and>
            world0\<lparr>trace :=
              [PUT ''http://node/fhir/Patient/pat-1'' patient1, WAIT 500,
               PUT ''http://node/fhir/Patient/pat-1'' patient1, WAIT 1000,
               PUT ''http://node/fhir/Patient/pat-1'' patient1, WAIT 1500]\<rparr> = setTimeout (500 * 3) wl')"
proof -
  have run: "retryRequest (axios_put env_node_failing ''http://node/fhir/Patient/pat-1'' patient1) 3 world0 =
     (Inl (AxiosError ''failure 3''),
      world0\<lparr>trace :=
        [PUT ''http://node/fhir/Patient/pat-1'' patient1, WAIT 500,
         PUT ''http://node/fhir/Patient/pat-1'' patient1, WAIT 1000,
         PUT ''http://node/fhir/Patient/pat-1'' patient1, WAIT 1500]\<rparr>)"
    by code_simp
  show ?thesis
    using run retryRequest_throws_last_error [OF run] by simp
qed

subsection \<open>What a step may change\<close>

lemma grows_refl [simp]: "grows w w"
  by (auto simp: grows_def intro: exI [of _ "[]"])

lemma grows_trans: "grows w w1 \<Longrightarrow> grows w1 w2 \<Longrightarrow> grows w w2"
  by (auto simp: grows_def)

lemma grows_append [simp]: "grows w (w\<lparr>trace := trace w @ tr\<rparr>)"
  by (auto simp: grows_def)

lemma grows_seen: "grows w w' \<Longrightarrow> seen w' = seen w"
  by (auto simp: grows_def)

lemma grows_console: "grows w w' \<Longrightarrow> console_error w' = console_error w"
  by (auto simp: grows_def)

lemma axios_get_grows: "grows w (snd (axios_get e url w))"
  by (simp add: axios_get_def)

lemma axios_put_grows: "grows w (snd (axios_put e url r w))"
  by (simp add: axios_put_def)

lemma setTimeout_grows: "grows w (setTimeout ms w)"
  by (simp add: setTimeout_def)

lemma retryRequest_loop_grows:
  assumes "\<And>w. grows w (snd (fn w))"
  shows "grows w (snd (retryRequest_loop fn N a le w))"
proof (induction "N - a" arbitrary: a le w)
  case 0
  then show ?case by (simp add: loop_unfold_done)
next
  case (Suc k)
  then have lt: "a < N" by simp
  obtain res w1 where fnw: "fn w = (res, w1)" by (cases "fn w")
  with assms [of w] have g1: "grows w w1" by simp
  show ?case
  proof (cases res)
    case (Inr v)
    with fnw lt g1 show ?thesis by (simp add: loop_unfold_ok)
  next
    case (Inl err)
    have "grows (setTimeout (500 * Suc a) w1) (snd (retryRequest_loop fn N (Suc a) err (setTimeout (500 * Suc a) w1)))"
      using Suc.hyps(2) by (intro Suc.hyps(1)) simp
    with g1 setTimeout_grows [of w1] fnw Inl lt show ?thesis
      by (auto simp: loop_unfold_fail intro: grows_trans)
  qed
qed

lemma retryRequest_grows:
  "(\<And>w. grows w (snd (fn w))) \<Longrightarrow> grows w (snd (retryRequest fn N w))"
  by (simp add: retryRequest_def retryRequest_loop_grows)

lemma putToNode_grows: "grows w (snd (putToNode e r w))"
  by (auto simp: putToNode_def putToNode_with_def retryRequest_grows axios_put_grows
      split: sum.splits)

lemma getFromProxy_grows: "grows w (snd (getFromProxy e path w))"
  by (simp add: getFromProxy_def axios_get_grows)

lemma deliver_entries_grows:
  "grows w (snd (snd (deliver_entries retryRequest e entries results w)))"
proof (induction entries arbitrary: results w)
  case Nil
  then show ?case by simp
next
  case (Cons entry entries)
  show ?case
  proof (cases "entry_resource entry")
    case (Inl err)
    then show ?thesis by simp
  next
    case (Inr res)
    show ?thesis
    proof (cases res)
      case None
      with Inr Cons.IH show ?thesis by simp
    next
      case (Some resource)
      obtain x w1 where p: "putToNode_with retryRequest e resource w = (x, w1)"
        by (cases "putToNode_with retryRequest e resource w")
      with putToNode_grows [of w e resource] have g: "grows w w1" by (simp add: putToNode_def)
      show ?thesis
      proof (cases x)
        case (Inl err)
        with Inr Some p g show ?thesis by simp
      next
        case (Inr status)
        with \<open>entry_resource entry = Inr res\<close> Some p g Cons.IH [of w1 "results @ [status]"]
        show ?thesis by (auto intro: grows_trans)
      qed
    qed
  qed
qed

lemma related_try_grows: "grows w (snd (snd (related_try retryRequest e q results w)))"
  using getFromProxy_grows [of w e q]
  by (auto simp: related_try_def split: prod.splits sum.splits option.splits
      intro: grows_trans deliver_entries_grows)

lemma related_step_grows: "grows w (snd (related_step retryRequest e q results w))"
  using related_try_grows [of w e q results]
  by (auto simp: related_step_def split: prod.splits)

lemma related_loop_grows: "grows w (snd (related_loop retryRequest e qs results w))"
proof (induction qs arbitrary: results w)
  case Nil
  then show ?case by simp
next
  case (Cons tq qs)
  obtain t q where tq: "tq = (t, q)" by (cases tq)
  obtain r1 w1 where s: "related_step retryRequest e q results w = (r1, w1)"
    by (cases "related_step retryRequest e q results w")
  with related_step_grows [of w e q results] have "grows w w1" by simp
  with Cons.IH [of w1 r1] tq s show ?case by (auto intro: grows_trans)
qed

lemma patient_step_grows: "grows w (snd (snd (patient_step retryRequest e enc results w)))"
proof -
  have "grows w (snd (putToNode e p (snd (getFromProxy e path w))))" for p path
    using getFromProxy_grows putToNode_grows by (rule grows_trans)
  then show ?thesis
    using getFromProxy_grows [of w e]
    by (auto simp: patient_step_def putToNode_def split: prod.splits sum.splits option.splits)
      (metis snd_conv)+
qed

subsection \<open>Admission\<close>

lemma getFromProxy_eq:
  "getFromProxy e path w =
     (get_reply e (trace w) (proxy_url e path), w\<lparr>trace := trace w @ [GET (proxy_url e path)]\<rparr>)"
  by (simp add: getFromProxy_def axios_get_def)

lemma process_event_after_fetch:
  "grows (w\<lparr>trace := trace w @ [GET (proxy_url e (''/Encounter/'' @ js_string uuid))]\<rparr>)
     (snd (snd (process_event retryRequest e uuid w)))"
proof -
  let ?w1 = "w\<lparr>trace := trace w @ [GET (proxy_url e (''/Encounter/'' @ js_string uuid))]\<rparr>"
  have a: "grows ?w1 (snd (putToNode e enc ?w1))" for enc
    by (rule putToNode_grows)
  have b: "grows ?w1 (snd (snd (patient_step retryRequest e enc rs (snd (putToNode e enc ?w1)))))" for enc rs
    using a patient_step_grows by (rule grows_trans)
  have c: "grows ?w1 (snd (related_loop retryRequest e qs rs'
       (snd (snd (patient_step retryRequest e enc rs (snd (putToNode e enc ?w1)))))))" for enc rs qs rs'
    using b related_loop_grows by (rule grows_trans)
  show ?thesis
    using a b c
    by (auto simp: process_event_def getFromProxy_eq putToNode_def
        split: prod.splits sum.splits option.splits)
      (metis snd_conv)+
qed




lemma respond_snd: "snd (respond uuid (r, rs, w)) = w"
  by (simp add: respond_def split: option.splits)

lemma post_event_admitted:
  "truthy uuid \<Longrightarrow> \<not> seen_has (seen w) uuid \<Longrightarrow>
   post_event e (Some uuid) w = respond uuid (process_event retryRequest e uuid (admit e uuid w))"
  by (simp add: post_event_def post_event_with_def)







text \<open>The definitions that a run on concrete inputs unfolds.\<close>

lemma digits_eval:
  "digits 0 = ''0''" "digits (Suc 0) = ''1''" "digits (Suc (Suc 0)) = ''2''"
  "digits (Suc (Suc (Suc 0))) = ''3''" "digits (Suc (Suc (Suc (Suc 0)))) = ''4''"
  "digits 1 = ''1''" "digits 2 = ''2''" "digits 3 = ''3''" "digits 4 = ''4''"
  by code_simp+

lemmas eval_defs =
  post_event_def post_event_with_def process_event_def admit_def saveSeen_def seen_add_def
  seen_has_def respond_def ok_response_def error_response_def duplicate_response_def
  missing_response_def getFromProxy_def axios_get_def axios_put_def proxy_url_def env_string_def
  putToNode_with_def node_url_def retryRequest_def retryRequest_loop.simps setTimeout_def
  MAX_RETRIES_def patient_step_def patientId_def subject_reference_def last_segment_def
  related_step_def related_try_def resourceQueries_def resourceTypes_def entry_resource_def
  env1_def proxy1_def world0_def encounter1_def patient1_def observations1_def observation_def
  env_proxy_down_def env_node_failing_def node_failing_def digits_eval env_no_subject_def
  encounter0_def env_patient_missing_def env_patient_refused_def observations3_def
  env_observation_refused_def env_disk_full_def env_node_flaky_def Let_def









subsection \<open>The pipeline of one event\<close>

lemma process_event_fetch_fails:
  "get_reply e (trace w) (proxy_url e (''/Encounter/'' @ js_string uuid)) = Inl err \<Longrightarrow>
   process_event rr e uuid w =
     (Some err, [], w\<lparr>trace := trace w @ [GET (proxy_url e (''/Encounter/'' @ js_string uuid))]\<rparr>)"
  by (simp add: process_event_def getFromProxy_eq)

lemma process_event_delivery_fails:
  "getFromProxy e (''/Encounter/'' @ js_string uuid) w = (Inr encounter, w1) \<Longrightarrow>
   putToNode_with rr e encounter w1 = (Inl err, w2) \<Longrightarrow>
   process_event rr e uuid w = (Some err, [], w2)"
  by (simp add: process_event_def)

lemma process_event_patient_fails:
  "getFromProxy e (''/Encounter/'' @ js_string uuid) w = (Inr encounter, w1) \<Longrightarrow>
   putToNode_with rr e encounter w1 = (Inr status, w2) \<Longrightarrow>
   patient_step rr e encounter [status] w2 = (Some err, results, w3) \<Longrightarrow>
   process_event rr e uuid w = (Some err, results, w3)"
  by (simp add: process_event_def)

lemma process_event_related:
  "getFromProxy e (''/Encounter/'' @ js_string uuid) w = (Inr encounter, w1) \<Longrightarrow>
   putToNode_with rr e encounter w1 = (Inr status, w2) \<Longrightarrow>
   patient_step rr e encounter [status] w2 = (None, results, w3) \<Longrightarrow>
   process_event rr e uuid w =
     (case related_loop rr e (resourceQueries uuid) results w3 of
        (results1, w4) \<Rightarrow> (None, results1, w4))"
  by (simp add: process_event_def)

lemma related_loop_append:
  "related_loop rr e (qs1 @ qs2) results w =
     (case related_loop rr e qs1 results w of (results1, w1) \<Rightarrow> related_loop rr e qs2 results1 w1)"
  by (induction qs1 arbitrary: results w) (auto split: prod.splits)

lemma related_loop_split:
  "related_loop rr e qs1 results w = (results1, w1) \<Longrightarrow>
   related_step rr e q results1 w1 = (results2, w2) \<Longrightarrow>
   related_loop rr e (qs1 @ (t, q) # qs2) results w = related_loop rr e qs2 results2 w2"
  by (simp add: related_loop_append)

lemma related_step_fetch_fails:
  "get_reply e (trace w) (proxy_url e q) = Inl err \<Longrightarrow>
   related_step rr e q results w = (results, w\<lparr>trace := trace w @ [GET (proxy_url e q)]\<rparr>)"
  by (simp add: related_step_def related_try_def getFromProxy_eq)

lemma respond_ok:
  "respond uuid (None, rw) = (case rw of (results1, w1) \<Rightarrow> (Some (ok_response uuid results1), w1))"
  by (cases rw) (simp add: respond_def)

lemma post_event_related:
  assumes "truthy uuid" and "\<not> seen_has (seen w) uuid"
    and "getFromProxy e (''/Encounter/'' @ js_string uuid) (admit e uuid w) = (Inr encounter, w1)"
    and "putToNode e encounter w1 = (Inr status, w2)"
    and "patient_step retryRequest e encounter [status] w2 = (None, results, w3)"
    and "resourceQueries uuid = qs1 @ (t, q) # qs2"
    and "related_loop retryRequest e qs1 results w3 = (results1, w4)"
    and "related_step retryRequest e q results1 w4 = (results2, w5)"
  shows "post_event e (Some uuid) w =
     (case related_loop retryRequest e qs2 results2 w5 of
        (results3, w6) \<Rightarrow> (Some (ok_response uuid results3), w6))"
proof -
  have "process_event retryRequest e uuid (admit e uuid w) =
      (case related_loop retryRequest e (resourceQueries uuid) results w3 of
        (results1, w4) \<Rightarrow> (None, results1, w4))"
    using assms(3-5) by (intro process_event_related) (simp_all add: putToNode_def)
  also have "related_loop retryRequest e (resourceQueries uuid) results w3 =
      related_loop retryRequest e qs2 results2 w5"
    unfolding assms(6) using assms(7,8) by (rule related_loop_split)
  finally show ?thesis
    using assms(1,2) by (simp add: post_event_admitted respond_ok)
qed

lemma respond_error:
  "message err = Some m \<Longrightarrow>
   respond uuid (Some err, results, w) = (Some (Response 500 (JObj [(''error'', JStr m)])), w)"
  by (simp add: respond_def error_response_def)

text \<open>
  C3. For an admitted event. When the GET of the Encounter fails, or when its delivery
  fails after the retries, the pipeline stops with that error and an empty \<open>results\<close>,
  and the response is 500 with the error's message; nothing was delivered. When the
  Encounter and the subject went through and the fetch of one related type fails (the
  type \<open>t\<close> anywhere in the list, \<open>qs1\<close> before it and \<open>qs2\<close> after it), that step
  leaves \<open>results\<close> as it found it, and the handler goes on with the types after it and
  answers \<^verbatim>\<open>ok\<close> with the number of \<open>results\<close>: the deliveries of the Encounter, of the
  subject and of the other types.
\<close>

theorem root_failure_fatal_related_fetch_failure_isolated:
  assumes "truthy uuid" and "\<not> seen_has (seen w) uuid" and "message err = Some m"
  shows "(get_reply e (trace (admit e uuid w)) (proxy_url e (''/Encounter/'' @ js_string uuid)) = Inl err \<longrightarrow>
            process_event retryRequest e uuid (admit e uuid w) =
              (Some err, [],
               (admit e uuid w)\<lparr>trace := trace (admit e uuid w) @
                   [GET (proxy_url e (''/Encounter/'' @ js_string uuid))]\<rparr>) \<and>
            post_event e (Some uuid) w =
              (Some (Response 500 (JObj [(''error'', JStr m)])),
               (admit e uuid w)\<lparr>trace := trace (admit e uuid w) @
                   [GET (proxy_url e (''/Encounter/'' @ js_string uuid))]\<rparr>)) \<and>
         (getFromProxy e (''/Encounter/'' @ js_string uuid) (admit e uuid w) = (Inr encounter, w1) \<and>
          putToNode e encounter w1 = (Inl err, w2) \<longrightarrow>
            process_event retryRequest e uuid (admit e uuid w) = (Some err, [], w2) \<and>
            post_event e (Some uuid) w = (Some (Response 500 (JObj [(''error'', JStr m)])), w2)) \<and>
         (getFromProxy e (''/Encounter/'' @ js_string uuid) (admit e uuid w) = (Inr encounter, w1) \<and>
          putToNode e encounter w1 = (Inr status, w2) \<and>
          patient_step retryRequest e encounter [status] w2 = (None, results, w3) \<and>
          resourceQueries uuid = qs1 @ (t, q) # qs2 \<and>
          related_loop retryRequest e qs1 results w3 = (results1, w4) \<and>
          get_reply e (trace w4) (proxy_url e q) = Inl err \<longrightarrow>
            related_step retryRequest e q results1 w4 =
              (results1, w4\<lparr>trace := trace w4 @ [GET (proxy_url e q)]\<rparr>) \<and>
            post_event e (Some uuid) w =
              (case related_loop retryRequest e qs2 results1
                      (w4\<lparr>trace := trace w4 @ [GET (proxy_url e q)]\<rparr>) of
                 (results3, w6) \<Rightarrow> (Some (ok_response uuid results3), w6)))"
proof (intro conjI impI; (elim conjE)?)
  assume f: "get_reply e (trace (admit e uuid w)) (proxy_url e (''/Encounter/'' @ js_string uuid)) = Inl err"
  then show p: "process_event retryRequest e uuid (admit e uuid w) =
      (Some err, [],
       (admit e uuid w)\<lparr>trace := trace (admit e uuid w) @
           [GET (proxy_url e (''/Encounter/'' @ js_string uuid))]\<rparr>)"
    by (rule process_event_fetch_fails)
  show "post_event e (Some uuid) w =
      (Some (Response 500 (JObj [(''error'', JStr m)])),
       (admit e uuid w)\<lparr>trace := trace (admit e uuid w) @
           [GET (proxy_url e (''/Encounter/'' @ js_string uuid))]\<rparr>)"
    using assms p by (simp add: post_event_admitted respond_error)
next
  assume g: "getFromProxy e (''/Encounter/'' @ js_string uuid) (admit e uuid w) = (Inr encounter, w1)"
    and d: "putToNode e encounter w1 = (Inl err, w2)"
  then show p: "process_event retryRequest e uuid (admit e uuid w) = (Some err, [], w2)"
    by (intro process_event_delivery_fails) (simp_all add: putToNode_def)
  show "post_event e (Some uuid) w = (Some (Response 500 (JObj [(''error'', JStr m)])), w2)"
    using assms p by (simp add: post_event_admitted respond_error)
next
  assume f: "get_reply e (trace w4) (proxy_url e q) = Inl err"
  then show s: "related_step retryRequest e q results1 w4 =
      (results1, w4\<lparr>trace := trace w4 @ [GET (proxy_url e q)]\<rparr>)"
    by (rule related_step_fetch_fails)
  assume "getFromProxy e (''/Encounter/'' @ js_string uuid) (admit e uuid w) = (Inr encounter, w1)"
    "putToNode e encounter w1 = (Inr status, w2)"
    "patient_step retryRequest e encounter [status] w2 = (None, results, w3)"
    "resourceQueries uuid = qs1 @ (t, q) # qs2"
    "related_loop retryRequest e qs1 results w3 = (results1, w4)"
  with assms(1,2) show "post_event e (Some uuid) w =
      (case related_loop retryRequest e qs2 results1
              (w4\<lparr>trace := trace w4 @ [GET (proxy_url e q)]\<rparr>) of
         (results3, w6) \<Rightarrow> (Some (ok_response uuid results3), w6))"
    using s by (rule post_event_related)
qed

theorem root_failure_fatal_related_fetch_failure_isolated_witness:
  "truthy (JStr ''enc-1'') \<and> \<not> seen_has (seen world0) (JStr ''enc-1'') \<and>
   post_event env_proxy_down (Some (JStr ''enc-1'')) world0 =
     (Some (Response 500 (JObj [(''error'', JStr ''connect ECONNREFUSED'')])),
      \<lparr>seen = [JStr ''enc-1''],
       trace = [WRITE (JArr [JStr ''enc-1'']), GET ''http://proxy/fhir/Encounter/enc-1''],
       console_error = []\<rparr>) \<and>
   post_event env_node_failing (Some (JStr ''enc-1'')) world0 =
     (Some (Response 500 (JObj [(''error'', JStr ''failure 3'')])),
      \<lparr>seen = [JStr ''enc-1''],
       trace = [WRITE (JArr [JStr ''enc-1'']), GET ''http://proxy/fhir/Encounter/enc-1'',
                PUT ''http://node/fhir/Encounter/enc-1'' encounter1, WAIT 500,
                PUT ''http://node/fhir/Encounter/enc-1'' encounter1, WAIT 1000,
                PUT ''http://node/fhir/Encounter/enc-1'' encounter1, WAIT 1500],
       console_error = []\<rparr>) \<and>
   fst (post_event env1 (Some (JStr ''enc-1'')) world0) =
     Some (Response 200 (JObj [(''status'', JStr ''ok''), (''uuid'', JStr ''enc-1''), (''sent'', JNum ''4'')]))"
proof -
  let ?u = "JStr ''enc-1''"
  have h: "truthy ?u" "\<not> seen_has (seen world0) ?u"
    by (simp_all add: world0_def seen_has_def)
  \<comment> \<open>the proxy is down\<close>
  have a1: "get_reply env_proxy_down (trace (admit env_proxy_down ?u world0))
      (proxy_url env_proxy_down (''/Encounter/'' @ js_string ?u)) = Inl (AxiosError ''connect ECONNREFUSED'')"
    by (simp add: eval_defs)
  have a2: "message (AxiosError ''connect ECONNREFUSED'') = Some ''connect ECONNREFUSED''" by simp
  note a = root_failure_fatal_related_fetch_failure_isolated [OF h a2, where e = env_proxy_down,
      THEN conjunct1, rule_format, OF a1, THEN conjunct2]
  have a3: "(admit env_proxy_down ?u world0)\<lparr>trace := trace (admit env_proxy_down ?u world0) @
      [GET (proxy_url env_proxy_down (''/Encounter/'' @ js_string ?u))]\<rparr> =
     \<lparr>seen = [JStr ''enc-1''],
       trace = [WRITE (JArr [JStr ''enc-1'']), GET ''http://proxy/fhir/Encounter/enc-1''],
       console_error = []\<rparr>"
    by (simp add: eval_defs)
  \<comment> \<open>the node refuses everything\<close>
  let ?w1 = "snd (getFromProxy env_node_failing (''/Encounter/'' @ js_string ?u) (admit env_node_failing ?u world0))"
  let ?w2 = "snd (putToNode env_node_failing encounter1 ?w1)"
  have b1: "getFromProxy env_node_failing (''/Encounter/'' @ js_string ?u) (admit env_node_failing ?u world0) =
      (Inr encounter1, ?w1)"
    by (simp add: eval_defs)
  have b2: "putToNode env_node_failing encounter1 ?w1 = (Inl (AxiosError ''failure 3''), ?w2)"
    by (simp add: eval_defs putToNode_def)
  have b3: "message (AxiosError ''failure 3'') = Some ''failure 3''" by simp
  note b = root_failure_fatal_related_fetch_failure_isolated [OF h b3, where e = env_node_failing,
      THEN conjunct2, THEN conjunct1, rule_format, OF conjI, OF b1 b2, THEN conjunct2]
  have b4: "?w2 = \<lparr>seen = [JStr ''enc-1''],
       trace = [WRITE (JArr [JStr ''enc-1'']), GET ''http://proxy/fhir/Encounter/enc-1'',
                PUT ''http://node/fhir/Encounter/enc-1'' encounter1, WAIT 500,
                PUT ''http://node/fhir/Encounter/enc-1'' encounter1, WAIT 1000,
                PUT ''http://node/fhir/Encounter/enc-1'' encounter1, WAIT 1500],
       console_error = []\<rparr>"
    by (simp add: eval_defs putToNode_def)
  \<comment> \<open>the Condition query fails\<close>
  let ?v1 = "snd (getFromProxy env1 (''/Encounter/'' @ js_string ?u) (admit env1 ?u world0))"
  let ?v2 = "snd (putToNode env1 encounter1 ?v1)"
  let ?v3 = "snd (snd (patient_step retryRequest env1 encounter1 [200] ?v2))"
  let ?obs = "(''Observation'', ''/Observation?encounter=enc-1'')"
  let ?v4 = "snd (related_loop retryRequest env1 [?obs] [200, 200] ?v3)"
  let ?rest = "map (\<lambda>t. (t, ''/'' @ t @ ''?encounter=enc-1''))
      [''Procedure'', ''MedicationRequest'', ''Medication'', ''AllergyIntolerance'',
       ''DiagnosticReport'', ''Immunization'', ''CarePlan'', ''Appointment'', ''DocumentReference'']"
  have c1: "getFromProxy env1 (''/Encounter/'' @ js_string ?u) (admit env1 ?u world0) = (Inr encounter1, ?v1)"
    by (simp add: eval_defs)
  have c2: "putToNode env1 encounter1 ?v1 = (Inr 200, ?v2)"
    by (simp add: eval_defs putToNode_def)
  have c3: "patient_step retryRequest env1 encounter1 [200] ?v2 = (None, [200, 200], ?v3)"
    by (simp add: eval_defs putToNode_def)
  have c4: "resourceQueries ?u = [?obs] @ (''Condition'', ''/Condition?encounter=enc-1'') # ?rest"
    by (simp add: eval_defs)
  have c5: "related_loop retryRequest env1 [?obs] [200, 200] ?v3 = ([200, 200, 200, 200], ?v4)"
    by (simp add: eval_defs putToNode_def)
  have c6: "get_reply env1 (trace ?v4) (proxy_url env1 ''/Condition?encounter=enc-1'') =
      Inl (AxiosError ''Request failed with status code 500'')"
    by (simp add: eval_defs)
  have c7: "message (AxiosError ''Request failed with status code 500'') =
      Some ''Request failed with status code 500''" by simp
  note c = root_failure_fatal_related_fetch_failure_isolated [OF h c7, where e = env1,
      THEN conjunct2, THEN conjunct2, rule_format, OF conjI, OF c1 conjI, OF c2 conjI,
      OF c3 conjI, OF c4 conjI, OF c5 c6, THEN conjunct2]
  have c8: "fst (case related_loop retryRequest env1 ?rest [200, 200, 200, 200]
        (?v4\<lparr>trace := trace ?v4 @ [GET (proxy_url env1 ''/Condition?encounter=enc-1'')]\<rparr>) of
       (results3, w6) \<Rightarrow> (Some (ok_response ?u results3), w6)) =
     Some (Response 200 (JObj [(''status'', JStr ''ok''), (''uuid'', JStr ''enc-1''), (''sent'', JNum ''4'')]))"
    by (simp add: eval_defs putToNode_def)
  show ?thesis
    using h a b c by (simp only: a3 b4 c8 simp_thms)
qed

subsection \<open>The records of one related type\<close>

lemma deliver_entries_append:
  "deliver_entries rr e (xs @ ys) results w =
     (case deliver_entries rr e xs results w of
        (None, results1, w1) \<Rightarrow> deliver_entries rr e ys results1 w1
      | (Some err, results1, w1) \<Rightarrow> (Some err, results1, w1))"
  by (induction xs arbitrary: results w) (auto split: sum.splits option.splits prod.splits)

lemma deliver_entries_completed:
  "deliver_entries rr e entries results w = (None, results1, w1) \<Longrightarrow>
   prefix results results1 \<and>
   length results1 = length results + length (filter deliverable entries)"
proof (induction entries arbitrary: results w)
  case Nil
  then show ?case by simp
next
  case (Cons entry entries)
  show ?case
  proof (cases "entry_resource entry")
    case (Inl err)
    with Cons.prems show ?thesis by simp
  next
    case (Inr res)
    show ?thesis
    proof (cases res)
      case None
      with Inr Cons.prems have "deliver_entries rr e entries results w = (None, results1, w1)"
        by simp
      from Cons.IH [OF this] Inr None show ?thesis by (simp add: deliverable_def)
    next
      case (Some resource)
      obtain x w2 where p: "putToNode_with rr e resource w = (x, w2)"
        by (cases "putToNode_with rr e resource w")
      show ?thesis
      proof (cases x)
        case (Inl err)
        with Inr Some p Cons.prems show ?thesis by simp
      next
        case (Inr status)
        with \<open>entry_resource entry = Inr res\<close> Some p Cons.prems
        have "deliver_entries rr e entries (results @ [status]) w2 = (None, results1, w1)"
          by simp
        from Cons.IH [OF this] \<open>entry_resource entry = Inr res\<close> Some
        show ?thesis by (auto simp: deliverable_def dest: append_prefixD)
      qed
    qed
  qed
qed

lemma related_try_delivery_fails:
  assumes "getFromProxy e q w = (Inr bundle, w1)"
    and "get_prop bundle ''entry'' = Inr (Some (JArr (before @ entry # after)))"
    and "deliver_entries rr e before results w1 = (None, results1, w2)"
    and "entry_resource entry = Inr (Some resource)"
    and "putToNode_with rr e resource w2 = (Inl err, w3)"
  shows "related_try rr e q results w = (Some err, results1, w3)"
  using assms by (simp add: related_try_def deliver_entries_append)

text \<open>
  C5. For an admitted event whose Encounter and subject went through, and a related
  type \<open>t\<close> whose bundle was fetched: when the records \<open>before\<close> were handled without an
  error and the delivery of the next record fails (after the retries), the error leaves
  the loop of that type with the deliveries of \<open>before\<close> still in \<open>results\<close>, one for each
  record of \<open>before\<close> that has a type and an id; the records \<open>after\<close> are not touched
  (nothing in the result depends on them, and the state is the one the failed delivery
  left); the \<^verbatim>\<open>catch\<close> of line 160 drops the error, the handler goes on with the types
  after \<open>t\<close> and answers \<^verbatim>\<open>ok\<close>.
\<close>

theorem delivery_failure_ends_only_its_type:
  assumes "truthy uuid" and "\<not> seen_has (seen w) uuid"
    and "getFromProxy e (''/Encounter/'' @ js_string uuid) (admit e uuid w) = (Inr encounter, w1)"
    and "putToNode e encounter w1 = (Inr status, w2)"
    and "patient_step retryRequest e encounter [status] w2 = (None, results, w3)"
    and "resourceQueries uuid = qs1 @ (t, q) # qs2"
    and "related_loop retryRequest e qs1 results w3 = (results1, w4)"
    and "getFromProxy e q w4 = (Inr bundle, w5)"
    and "get_prop bundle ''entry'' = Inr (Some (JArr (before @ entry # after)))"
    and "deliver_entries retryRequest e before results1 w5 = (None, results2, w6)"
    and "entry_resource entry = Inr (Some resource)"
    and "putToNode e resource w6 = (Inl err, w7)"
  shows "related_try retryRequest e q results1 w4 = (Some err, results2, w7) \<and>
         prefix results1 results2 \<and>
         length results2 = length results1 + length (filter deliverable before) \<and>
         post_event e (Some uuid) w =
           (case related_loop retryRequest e qs2 results2 w7 of
              (results3, w8) \<Rightarrow> (Some (ok_response uuid results3), w8))"
proof -
  have t: "related_try retryRequest e q results1 w4 = (Some err, results2, w7)"
    using assms(8-12) by (intro related_try_delivery_fails) (simp_all add: putToNode_def)
  then have s: "related_step retryRequest e q results1 w4 = (results2, w7)"
    by (simp add: related_step_def)
  have "post_event e (Some uuid) w =
      (case related_loop retryRequest e qs2 results2 w7 of
         (results3, w8) \<Rightarrow> (Some (ok_response uuid results3), w8))"
    using assms(1-7) s by (rule post_event_related)
  with t deliver_entries_completed [OF assms(10)] show ?thesis by simp
qed

theorem delivery_failure_ends_only_its_type_witness:
  "entry_resource (JObj [(''resource'', observation ''o2'')]) = Inr (Some (observation ''o2'')) \<and>
   fst (putToNode env_observation_refused (observation ''o2'') world0) =
     Inl (AxiosError ''Request failed with status code 422'') \<and>
   post_event env_observation_refused (Some (JStr ''enc-1'')) world0 =
     (Some (Response 200 (JObj [(''status'', JStr ''ok''), (''uuid'', JStr ''enc-1''), (''sent'', JNum ''3'')])),
      \<lparr>seen = [JStr ''enc-1''],
       trace =
         [WRITE (JArr [JStr ''enc-1'']),
          GET ''http://proxy/fhir/Encounter/enc-1'',
          PUT ''http://node/fhir/Encounter/enc-1'' encounter1,
          GET ''http://proxy/fhir/Patient/pat-1'',
          PUT ''http://node/fhir/Patient/pat-1'' patient1,
          GET ''http://proxy/fhir/Observation?encounter=enc-1'',
          PUT ''http://node/fhir/Observation/o1'' (observation ''o1''),
          PUT ''http://node/fhir/Observation/o2'' (observation ''o2''), WAIT 500,
          PUT ''http://node/fhir/Observation/o2'' (observation ''o2''), WAIT 1000,
          PUT ''http://node/fhir/Observation/o2'' (observation ''o2''), WAIT 1500,
          GET ''http://proxy/fhir/Condition?encounter=enc-1'',
          GET ''http://proxy/fhir/Procedure?encounter=enc-1'',
          GET ''http://proxy/fhir/MedicationRequest?encounter=enc-1'',
          GET ''http://proxy/fhir/Medication?encounter=enc-1'',
          GET ''http://proxy/fhir/AllergyIntolerance?encounter=enc-1'',
          GET ''http://proxy/fhir/DiagnosticReport?encounter=enc-1'',
          GET ''http://proxy/fhir/Immunization?encounter=enc-1'',
          GET ''http://proxy/fhir/CarePlan?encounter=enc-1'',
          GET ''http://proxy/fhir/Appointment?encounter=enc-1'',
          GET ''http://proxy/fhir/DocumentReference?encounter=enc-1''],
       console_error = []\<rparr>)"
proof -
  let ?u = "JStr ''enc-1''"
  let ?e = env_observation_refused
  let ?w1 = "snd (getFromProxy ?e (''/Encounter/'' @ js_string ?u) (admit ?e ?u world0))"
  let ?w2 = "snd (putToNode ?e encounter1 ?w1)"
  let ?w3 = "snd (snd (patient_step retryRequest ?e encounter1 [200] ?w2))"
  let ?q = "''/Observation?encounter=enc-1''"
  let ?w5 = "snd (getFromProxy ?e ?q ?w3)"
  let ?o1 = "JObj [(''resource'', observation ''o1'')]"
  let ?o2 = "JObj [(''resource'', observation ''o2'')]"
  let ?o3 = "JObj [(''resource'', observation ''o3'')]"
  let ?w6 = "snd (snd (deliver_entries retryRequest ?e [?o1] [200, 200] ?w5))"
  let ?w7 = "snd (putToNode ?e (observation ''o2'') ?w6)"
  let ?rest = "map (\<lambda>t. (t, ''/'' @ t @ ''?encounter=enc-1''))
      [''Condition'', ''Procedure'', ''MedicationRequest'', ''Medication'', ''AllergyIntolerance'',
       ''DiagnosticReport'', ''Immunization'', ''CarePlan'', ''Appointment'', ''DocumentReference'']"
  have h: "truthy ?u" "\<not> seen_has (seen world0) ?u"
    by (simp_all add: world0_def seen_has_def)
  have c1: "getFromProxy ?e (''/Encounter/'' @ js_string ?u) (admit ?e ?u world0) = (Inr encounter1, ?w1)"
    by (simp add: eval_defs)
  have c2: "putToNode ?e encounter1 ?w1 = (Inr 200, ?w2)"
    by (simp add: eval_defs putToNode_def)
  have c3: "patient_step retryRequest ?e encounter1 [200] ?w2 = (None, [200, 200], ?w3)"
    by (simp add: eval_defs putToNode_def)
  have c4: "resourceQueries ?u = [] @ (''Observation'', ?q) # ?rest"
    by (simp add: eval_defs)
  have c5: "related_loop retryRequest ?e [] [200, 200] ?w3 = ([200, 200], ?w3)"
    by simp
  have c6: "getFromProxy ?e ?q ?w3 = (Inr observations3, ?w5)"
    by (simp add: eval_defs putToNode_def)
  have c7: "get_prop observations3 ''entry'' = Inr (Some (JArr ([?o1] @ ?o2 # [?o3])))"
    by (simp add: eval_defs)
  have c8: "deliver_entries retryRequest ?e [?o1] [200, 200] ?w5 = (None, [200, 200, 200], ?w6)"
    by (simp add: eval_defs putToNode_def)
  have c9: "entry_resource ?o2 = Inr (Some (observation ''o2''))"
    by (simp add: eval_defs)
  have c10: "putToNode ?e (observation ''o2'') ?w6 =
      (Inl (AxiosError ''Request failed with status code 422''), ?w7)"
    by (simp add: eval_defs putToNode_def)
  note t = delivery_failure_ends_only_its_type [OF h c1 c2 c3 c4 c5 c6 c7 c8 c9 c10,
      THEN conjunct2, THEN conjunct2, THEN conjunct2]
  have r: "(case related_loop retryRequest ?e ?rest [200, 200, 200] ?w7 of
       (results3, w8) \<Rightarrow> (Some (ok_response ?u results3), w8)) =
     (Some (Response 200 (JObj [(''status'', JStr ''ok''), (''uuid'', JStr ''enc-1''), (''sent'', JNum ''3'')])),
      \<lparr>seen = [JStr ''enc-1''],
       trace =
         [WRITE (JArr [JStr ''enc-1'']),
          GET ''http://proxy/fhir/Encounter/enc-1'',
          PUT ''http://node/fhir/Encounter/enc-1'' encounter1,
          GET ''http://proxy/fhir/Patient/pat-1'',
          PUT ''http://node/fhir/Patient/pat-1'' patient1,
          GET ''http://proxy/fhir/Observation?encounter=enc-1'',
          PUT ''http://node/fhir/Observation/o1'' (observation ''o1''),
          PUT ''http://node/fhir/Observation/o2'' (observation ''o2''), WAIT 500,
          PUT ''http://node/fhir/Observation/o2'' (observation ''o2''), WAIT 1000,
          PUT ''http://node/fhir/Observation/o2'' (observation ''o2''), WAIT 1500,
          GET ''http://proxy/fhir/Condition?encounter=enc-1'',
          GET ''http://proxy/fhir/Procedure?encounter=enc-1'',
          GET ''http://proxy/fhir/MedicationRequest?encounter=enc-1'',
          GET ''http://proxy/fhir/Medication?encounter=enc-1'',
          GET ''http://proxy/fhir/AllergyIntolerance?encounter=enc-1'',
          GET ''http://proxy/fhir/DiagnosticReport?encounter=enc-1'',
          GET ''http://proxy/fhir/Immunization?encounter=enc-1'',
          GET ''http://proxy/fhir/CarePlan?encounter=enc-1'',
          GET ''http://proxy/fhir/Appointment?encounter=enc-1'',
          GET ''http://proxy/fhir/DocumentReference?encounter=enc-1''],
       console_error = []\<rparr>)"
    by (simp add: eval_defs putToNode_def)
  have p: "fst (putToNode ?e (observation ''o2'') world0) =
     Inl (AxiosError ''Request failed with status code 422'')"
    by (simp add: eval_defs putToNode_def)
  from c9 p t show ?thesis by (simp only: r simp_thms)
qed

subsection \<open>The subject\<close>

lemma patient_step_no_reference:
  "subject_reference encounter = Inr None \<or> subject_reference encounter = Inr (Some JNull) \<Longrightarrow>
   patient_step rr e encounter results w = (None, results, w)"
  by (auto simp: patient_step_def patientId_def)

lemma patient_step_fetch_fails:
  "patientId encounter = Inr (Some pid) \<Longrightarrow> pid \<noteq> [] \<Longrightarrow>
   get_reply e (trace w) (proxy_url e (''/Patient/'' @ pid)) = Inl err \<Longrightarrow>
   patient_step rr e encounter results w =
     (Some err, results, w\<lparr>trace := trace w @ [GET (proxy_url e (''/Patient/'' @ pid))]\<rparr>)"
  by (simp add: patient_step_def getFromProxy_eq)

lemma patient_step_delivery_fails:
  "patientId encounter = Inr (Some pid) \<Longrightarrow> pid \<noteq> [] \<Longrightarrow>
   getFromProxy e (''/Patient/'' @ pid) w = (Inr patient, w1) \<Longrightarrow>
   putToNode_with rr e patient w1 = (Inl err, w2) \<Longrightarrow>
   patient_step rr e encounter results w = (Some err, results, w2)"
  by (simp add: patient_step_def)

lemma post_event_completes:
  assumes "truthy uuid" and "\<not> seen_has (seen w) uuid"
    and "getFromProxy e (''/Encounter/'' @ js_string uuid) (admit e uuid w) = (Inr encounter, w1)"
    and "putToNode e encounter w1 = (Inr status, w2)"
    and "patient_step retryRequest e encounter [status] w2 = (None, results, w3)"
  shows "post_event e (Some uuid) w =
     (case related_loop retryRequest e (resourceQueries uuid) results w3 of
        (results1, w4) \<Rightarrow> (Some (ok_response uuid results1), w4))"
proof -
  have "process_event retryRequest e uuid (admit e uuid w) =
      (case related_loop retryRequest e (resourceQueries uuid) results w3 of
        (results1, w4) \<Rightarrow> (None, results1, w4))"
    using assms(3-5) by (intro process_event_related) (simp_all add: putToNode_def)
  then show ?thesis
    using assms(1,2) by (simp add: post_event_admitted respond_ok)
qed

lemma post_event_patient_fails:
  assumes "truthy uuid" and "\<not> seen_has (seen w) uuid"
    and "getFromProxy e (''/Encounter/'' @ js_string uuid) (admit e uuid w) = (Inr encounter, w1)"
    and "putToNode e encounter w1 = (Inr status, w2)"
    and "patient_step retryRequest e encounter [status] w2 = (Some err, results, w3)"
    and "message err = Some m"
  shows "post_event e (Some uuid) w = (Some (Response 500 (JObj [(''error'', JStr m)])), w3)"
proof -
  have "process_event retryRequest e uuid (admit e uuid w) = (Some err, results, w3)"
    using assms(3-5) by (intro process_event_patient_fails) (simp_all add: putToNode_def)
  then show ?thesis
    using assms(1,2,6) by (simp add: post_event_admitted respond_error)
qed

text \<open>
  C6. For an admitted event whose Encounter was fetched and delivered. When
  \<^verbatim>\<open>encounter.subject?.reference\<close> is \<^verbatim>\<open>undefined\<close> or \<^verbatim>\<open>null\<close>, the step of the subject
  does nothing (no request, \<open>results\<close> and state as after the Encounter), the handler
  goes straight to the related types with the one delivery of the Encounter in
  \<open>results\<close>, and answers \<^verbatim>\<open>ok\<close>. When the reference names a Patient, a failed GET of
  the Patient, or a failed delivery of it, ends the event with the 500 response.
\<close>

theorem subject_optional_and_fatal:
  assumes "truthy uuid" and "\<not> seen_has (seen w) uuid"
    and "getFromProxy e (''/Encounter/'' @ js_string uuid) (admit e uuid w) = (Inr encounter, w1)"
    and "putToNode e encounter w1 = (Inr status, w2)"
  shows "(subject_reference encounter = Inr None \<or> subject_reference encounter = Inr (Some JNull) \<longrightarrow>
            patient_step retryRequest e encounter [status] w2 = (None, [status], w2) \<and>
            post_event e (Some uuid) w =
              (case related_loop retryRequest e (resourceQueries uuid) [status] w2 of
                 (results, w3) \<Rightarrow> (Some (ok_response uuid results), w3))) \<and>
         (patientId encounter = Inr (Some pid) \<and> pid \<noteq> [] \<and> message err = Some m \<and>
          get_reply e (trace w2) (proxy_url e (''/Patient/'' @ pid)) = Inl err \<longrightarrow>
            post_event e (Some uuid) w =
              (Some (Response 500 (JObj [(''error'', JStr m)])),
               w2\<lparr>trace := trace w2 @ [GET (proxy_url e (''/Patient/'' @ pid))]\<rparr>)) \<and>
         (patientId encounter = Inr (Some pid) \<and> pid \<noteq> [] \<and> message err = Some m \<and>
          getFromProxy e (''/Patient/'' @ pid) w2 = (Inr patient, w3) \<and>
          putToNode e patient w3 = (Inl err, w4) \<longrightarrow>
            post_event e (Some uuid) w = (Some (Response 500 (JObj [(''error'', JStr m)])), w4))"
proof (intro conjI impI; (elim conjE)?)
  assume "subject_reference encounter = Inr None \<or> subject_reference encounter = Inr (Some JNull)"
  then show p: "patient_step retryRequest e encounter [status] w2 = (None, [status], w2)"
    by (rule patient_step_no_reference)
  show "post_event e (Some uuid) w =
      (case related_loop retryRequest e (resourceQueries uuid) [status] w2 of
         (results, w3) \<Rightarrow> (Some (ok_response uuid results), w3))"
    using assms p by (rule post_event_completes)
next
  assume "patientId encounter = Inr (Some pid)" "pid \<noteq> []" and m: "message err = Some m"
    and "get_reply e (trace w2) (proxy_url e (''/Patient/'' @ pid)) = Inl err"
  then have "patient_step retryRequest e encounter [status] w2 =
      (Some err, [status], w2\<lparr>trace := trace w2 @ [GET (proxy_url e (''/Patient/'' @ pid))]\<rparr>)"
    by (intro patient_step_fetch_fails)
  with assms show "post_event e (Some uuid) w =
      (Some (Response 500 (JObj [(''error'', JStr m)])),
       w2\<lparr>trace := trace w2 @ [GET (proxy_url e (''/Patient/'' @ pid))]\<rparr>)"
    using m by (rule post_event_patient_fails)
next
  assume "patientId encounter = Inr (Some pid)" "pid \<noteq> []" and m: "message err = Some m"
    and "getFromProxy e (''/Patient/'' @ pid) w2 = (Inr patient, w3)"
    and "putToNode e patient w3 = (Inl err, w4)"
  then have "patient_step retryRequest e encounter [status] w2 = (Some err, [status], w4)"
    by (intro patient_step_delivery_fails) (simp_all add: putToNode_def)
  with assms show "post_event e (Some uuid) w = (Some (Response 500 (JObj [(''error'', JStr m)])), w4)"
    using m by (rule post_event_patient_fails)
qed

theorem subject_optional_and_fatal_witness:
  "subject_reference encounter0 = Inr None \<and>
   post_event env_no_subject (Some (JStr ''enc-1'')) world0 =
     (Some (Response 200 (JObj [(''status'', JStr ''ok''), (''uuid'', JStr ''enc-1''), (''sent'', JNum ''3'')])),
      \<lparr>seen = [JStr ''enc-1''],
       trace =
         [WRITE (JArr [JStr ''enc-1'']),
          GET ''http://proxy/fhir/Encounter/enc-1'',
          PUT ''http://node/fhir/Encounter/enc-1'' encounter0,
          GET ''http://proxy/fhir/Observation?encounter=enc-1'',
          PUT ''http://node/fhir/Observation/o1'' (observation ''o1''),
          PUT ''http://node/fhir/Observation/o2'' (observation ''o2''),
          GET ''http://proxy/fhir/Condition?encounter=enc-1'',
          GET ''http://proxy/fhir/Procedure?encounter=enc-1'',
          GET ''http://proxy/fhir/MedicationRequest?encounter=enc-1'',
          GET ''http://proxy/fhir/Medication?encounter=enc-1'',
          GET ''http://proxy/fhir/AllergyIntolerance?encounter=enc-1'',
          GET ''http://proxy/fhir/DiagnosticReport?encounter=enc-1'',
          GET ''http://proxy/fhir/Immunization?encounter=enc-1'',
          GET ''http://proxy/fhir/CarePlan?encounter=enc-1'',
          GET ''http://proxy/fhir/Appointment?encounter=enc-1'',
          GET ''http://proxy/fhir/DocumentReference?encounter=enc-1''],
       console_error = []\<rparr>) \<and>
   patientId encounter1 = Inr (Some ''pat-1'') \<and>
   post_event env_patient_missing (Some (JStr ''enc-1'')) world0 =
     (Some (Response 500 (JObj [(''error'', JStr ''Request failed with status code 404'')])),
      \<lparr>seen = [JStr ''enc-1''],
       trace =
         [WRITE (JArr [JStr ''enc-1'']),
          GET ''http://proxy/fhir/Encounter/enc-1'',
          PUT ''http://node/fhir/Encounter/enc-1'' encounter1,
          GET ''http://proxy/fhir/Patient/pat-1''],
       console_error = []\<rparr>) \<and>
   post_event env_patient_refused (Some (JStr ''enc-1'')) world0 =
     (Some (Response 500 (JObj [(''error'', JStr ''Request failed with status code 400'')])),
      \<lparr>seen = [JStr ''enc-1''],
       trace =
         [WRITE (JArr [JStr ''enc-1'']),
          GET ''http://proxy/fhir/Encounter/enc-1'',
          PUT ''http://node/fhir/Encounter/enc-1'' encounter1,
          GET ''http://proxy/fhir/Patient/pat-1'',
          PUT ''http://node/fhir/Patient/pat-1'' patient1, WAIT 500,
          PUT ''http://node/fhir/Patient/pat-1'' patient1, WAIT 1000,
          PUT ''http://node/fhir/Patient/pat-1'' patient1, WAIT 1500],
       console_error = []\<rparr>)"
proof -
  let ?u = "JStr ''enc-1''"
  have h: "truthy ?u" "\<not> seen_has (seen world0) ?u"
    by (simp_all add: world0_def seen_has_def)
  \<comment> \<open>no subject\<close>
  let ?a1 = "snd (getFromProxy env_no_subject (''/Encounter/'' @ js_string ?u) (admit env_no_subject ?u world0))"
  let ?a2 = "snd (putToNode env_no_subject encounter0 ?a1)"
  have a1: "getFromProxy env_no_subject (''/Encounter/'' @ js_string ?u) (admit env_no_subject ?u world0) =
      (Inr encounter0, ?a1)"
    by (simp add: eval_defs)
  have a2: "putToNode env_no_subject encounter0 ?a1 = (Inr 200, ?a2)"
    by (simp add: eval_defs putToNode_def)
  have a3: "subject_reference encounter0 = Inr None"
    by (simp add: eval_defs)
  note a = subject_optional_and_fatal [OF h a1 a2, THEN conjunct1, rule_format, OF disjI1, OF a3,
      THEN conjunct2]
  have a4: "(case related_loop retryRequest env_no_subject (resourceQueries ?u) [200] ?a2 of
       (results, w3) \<Rightarrow> (Some (ok_response ?u results), w3)) =
     (Some (Response 200 (JObj [(''status'', JStr ''ok''), (''uuid'', JStr ''enc-1''), (''sent'', JNum ''3'')])),
      \<lparr>seen = [JStr ''enc-1''],
       trace =
         [WRITE (JArr [JStr ''enc-1'']),
          GET ''http://proxy/fhir/Encounter/enc-1'',
          PUT ''http://node/fhir/Encounter/enc-1'' encounter0,
          GET ''http://proxy/fhir/Observation?encounter=enc-1'',
          PUT ''http://node/fhir/Observation/o1'' (observation ''o1''),
          PUT ''http://node/fhir/Observation/o2'' (observation ''o2''),
          GET ''http://proxy/fhir/Condition?encounter=enc-1'',
          GET ''http://proxy/fhir/Procedure?encounter=enc-1'',
          GET ''http://proxy/fhir/MedicationRequest?encounter=enc-1'',
          GET ''http://proxy/fhir/Medication?encounter=enc-1'',
          GET ''http://proxy/fhir/AllergyIntolerance?encounter=enc-1'',
          GET ''http://proxy/fhir/DiagnosticReport?encounter=enc-1'',
          GET ''http://proxy/fhir/Immunization?encounter=enc-1'',
          GET ''http://proxy/fhir/CarePlan?encounter=enc-1'',
          GET ''http://proxy/fhir/Appointment?encounter=enc-1'',
          GET ''http://proxy/fhir/DocumentReference?encounter=enc-1''],
       console_error = []\<rparr>)"
    by (simp add: eval_defs putToNode_def)
  \<comment> \<open>the Patient cannot be fetched\<close>
  let ?b1 = "snd (getFromProxy env_patient_missing (''/Encounter/'' @ js_string ?u)
      (admit env_patient_missing ?u world0))"
  let ?b2 = "snd (putToNode env_patient_missing encounter1 ?b1)"
  have b1: "getFromProxy env_patient_missing (''/Encounter/'' @ js_string ?u)
      (admit env_patient_missing ?u world0) = (Inr encounter1, ?b1)"
    by (simp add: eval_defs)
  have b2: "putToNode env_patient_missing encounter1 ?b1 = (Inr 200, ?b2)"
    by (simp add: eval_defs putToNode_def)
  have p: "patientId encounter1 = Inr (Some ''pat-1'')"
    by (simp add: eval_defs)
  have ne: "''pat-1'' \<noteq> []" by simp
  have b3: "message (AxiosError ''Request failed with status code 404'') =
      Some ''Request failed with status code 404''" by simp
  have b4: "get_reply env_patient_missing (trace ?b2) (proxy_url env_patient_missing (''/Patient/'' @ ''pat-1'')) =
      Inl (AxiosError ''Request failed with status code 404'')"
    by (simp add: eval_defs putToNode_def)
  note b = subject_optional_and_fatal [OF h b1 b2, THEN conjunct2, THEN conjunct1, rule_format,
      OF conjI, OF p conjI, OF ne conjI, OF b3 b4]
  have b5: "?b2\<lparr>trace := trace ?b2 @ [GET (proxy_url env_patient_missing (''/Patient/'' @ ''pat-1''))]\<rparr> =
      \<lparr>seen = [JStr ''enc-1''],
       trace =
         [WRITE (JArr [JStr ''enc-1'']),
          GET ''http://proxy/fhir/Encounter/enc-1'',
          PUT ''http://node/fhir/Encounter/enc-1'' encounter1,
          GET ''http://proxy/fhir/Patient/pat-1''],
       console_error = []\<rparr>"
    by (simp add: eval_defs putToNode_def)
  \<comment> \<open>the Patient cannot be delivered\<close>
  let ?c1 = "snd (getFromProxy env_patient_refused (''/Encounter/'' @ js_string ?u)
      (admit env_patient_refused ?u world0))"
  let ?c2 = "snd (putToNode env_patient_refused encounter1 ?c1)"
  let ?c3 = "snd (getFromProxy env_patient_refused (''/Patient/'' @ ''pat-1'') ?c2)"
  let ?c4 = "snd (putToNode env_patient_refused patient1 ?c3)"
  have c1: "getFromProxy env_patient_refused (''/Encounter/'' @ js_string ?u)
      (admit env_patient_refused ?u world0) = (Inr encounter1, ?c1)"
    by (simp add: eval_defs)
  have c2: "putToNode env_patient_refused encounter1 ?c1 = (Inr 200, ?c2)"
    by (simp add: eval_defs putToNode_def)
  have c3: "getFromProxy env_patient_refused (''/Patient/'' @ ''pat-1'') ?c2 = (Inr patient1, ?c3)"
    by (simp add: eval_defs putToNode_def)
  have c4: "putToNode env_patient_refused patient1 ?c3 =
      (Inl (AxiosError ''Request failed with status code 400''), ?c4)"
    by (simp add: eval_defs putToNode_def)
  have c5: "message (AxiosError ''Request failed with status code 400'') =
      Some ''Request failed with status code 400''" by simp
  note c = subject_optional_and_fatal [OF h c1 c2, THEN conjunct2, THEN conjunct2, rule_format,
      OF conjI, OF p conjI, OF ne conjI, OF c5 conjI, OF c3 c4]
  have c6: "?c4 =
      \<lparr>seen = [JStr ''enc-1''],
       trace =
         [WRITE (JArr [JStr ''enc-1'']),
          GET ''http://proxy/fhir/Encounter/enc-1'',
          PUT ''http://node/fhir/Encounter/enc-1'' encounter1,
          GET ''http://proxy/fhir/Patient/pat-1'',
          PUT ''http://node/fhir/Patient/pat-1'' patient1, WAIT 500,
          PUT ''http://node/fhir/Patient/pat-1'' patient1, WAIT 1000,
          PUT ''http://node/fhir/Patient/pat-1'' patient1, WAIT 1500],
       console_error = []\<rparr>"
    by (simp add: eval_defs putToNode_def)
  from a3 p a b c show ?thesis by (simp only: a4 b5 c6 simp_thms)
qed

subsection \<open>Requests to the proxy are made once\<close>

lemma gets_axios_put [simp]: "gets (snd (axios_put e url r w)) = gets w"
  by (simp add: gets_def axios_put_def)

lemma gets_setTimeout [simp]: "gets (setTimeout ms w) = gets w"
  by (simp add: gets_def setTimeout_def)


lemma gets_retryRequest_loop:
  assumes "\<And>w. gets (snd (fn w)) = gets w"
  shows "gets (snd (retryRequest_loop fn N a le w)) = gets w"
proof (induction "N - a" arbitrary: a le w)
  case 0
  then show ?case by (simp add: loop_unfold_done)
next
  case (Suc k)
  then have lt: "a < N" by simp
  obtain res w1 where fnw: "fn w = (res, w1)" by (cases "fn w")
  with assms [of w] have g1: "gets w1 = gets w" by simp
  show ?case
  proof (cases res)
    case (Inr v)
    with fnw lt g1 show ?thesis by (simp add: loop_unfold_ok)
  next
    case (Inl err)
    have "gets (snd (retryRequest_loop fn N (Suc a) err (setTimeout (500 * Suc a) w1))) =
        gets (setTimeout (500 * Suc a) w1)"
      using Suc.hyps(2) by (intro Suc.hyps(1)) simp
    with g1 fnw Inl lt show ?thesis by (simp add: loop_unfold_fail)
  qed
qed

lemma gets_putToNode [simp]: "gets (snd (putToNode_with retryRequest e r w)) = gets w"
  by (auto simp: putToNode_with_def retryRequest_def gets_retryRequest_loop split: sum.splits)

lemma gets_deliver_entries [simp]:
  "gets (snd (snd (deliver_entries retryRequest e entries results w))) = gets w"
proof (induction entries arbitrary: results w)
  case Nil
  then show ?case by simp
next
  case (Cons entry entries)
  show ?case
  proof (cases "entry_resource entry")
    case (Inl err)
    then show ?thesis by simp
  next
    case (Inr res)
    show ?thesis
    proof (cases res)
      case None
      with Inr Cons.IH show ?thesis by simp
    next
      case (Some resource)
      obtain x w1 where p: "putToNode_with retryRequest e resource w = (x, w1)"
        by (cases "putToNode_with retryRequest e resource w")
      with gets_putToNode [of e resource w] have g: "gets w1 = gets w" by simp
      show ?thesis
      proof (cases x)
        case (Inl err)
        with Inr Some p g show ?thesis by simp
      next
        case (Inr status)
        with \<open>entry_resource entry = Inr res\<close> Some p g Cons.IH [of "results @ [status]" w1]
        show ?thesis by simp
      qed
    qed
  qed
qed







subsection \<open>Saving the set\<close>

text \<open>
  Nothing but \<^verbatim>\<open>saveSeen\<close> reads the outcome of the write, and nothing reads the console.
\<close>

lemma set_console_simps [simp]:
  "seen (set_console c w) = seen w" "trace (set_console c w) = trace w"
  "console_error (set_console c w) = c"
  by (simp_all add: set_console_def)

lemma axios_get_console:
  "axios_get (e\<lparr>write_reply := wr\<rparr>) url (set_console c w) = apsnd (set_console c) (axios_get e url w)"
  by (simp add: axios_get_def set_console_def)

lemma axios_put_console:
  "axios_put (e\<lparr>write_reply := wr\<rparr>) url r (set_console c w) =
     apsnd (set_console c) (axios_put e url r w)"
  by (simp add: axios_put_def set_console_def)

lemma setTimeout_console: "setTimeout ms (set_console c w) = set_console c (setTimeout ms w)"
  by (simp add: setTimeout_def set_console_def)

lemma retryRequest_loop_console:
  assumes "\<And>w. fn' (set_console c w) = apsnd (set_console c) (fn w)"
  shows "retryRequest_loop fn' N a le (set_console c w) =
           apsnd (set_console c) (retryRequest_loop fn N a le w)"
proof (induction "N - a" arbitrary: a le w)
  case 0
  then show ?case by (simp add: loop_unfold_done)
next
  case (Suc k)
  then have lt: "a < N" by simp
  obtain res w1 where fnw: "fn w = (res, w1)" by (cases "fn w")
  with assms [of w] have fnw': "fn' (set_console c w) = (res, set_console c w1)" by simp
  show ?case
  proof (cases res)
    case (Inr v)
    with fnw fnw' lt show ?thesis by (simp add: loop_unfold_ok)
  next
    case (Inl err)
    have "retryRequest_loop fn' N (Suc a) err (set_console c (setTimeout (500 * Suc a) w1)) =
        apsnd (set_console c) (retryRequest_loop fn N (Suc a) err (setTimeout (500 * Suc a) w1))"
      using Suc.hyps(2) by (intro Suc.hyps(1)) simp
    with fnw fnw' Inl lt show ?thesis by (simp add: loop_unfold_fail setTimeout_console)
  qed
qed

lemma putToNode_console:
  "putToNode_with retryRequest (e\<lparr>write_reply := wr\<rparr>) r (set_console c w) =
     apsnd (set_console c) (putToNode_with retryRequest e r w)"
  by (simp add: putToNode_with_def node_url_def retryRequest_def
      retryRequest_loop_console [where fn = "axios_put e url r" for url] axios_put_console
      split: sum.splits)

lemma getFromProxy_console:
  "getFromProxy (e\<lparr>write_reply := wr\<rparr>) path (set_console c w) =
     apsnd (set_console c) (getFromProxy e path w)"
  by (simp add: getFromProxy_def proxy_url_def axios_get_console)

lemma deliver_entries_console:
  "deliver_entries retryRequest (e\<lparr>write_reply := wr\<rparr>) entries results (set_console c w) =
     apsnd (apsnd (set_console c)) (deliver_entries retryRequest e entries results w)"
proof (induction entries arbitrary: results w)
  case Nil
  then show ?case by simp
next
  case (Cons entry entries)
  show ?case
  proof (cases "entry_resource entry")
    case (Inl err)
    then show ?thesis by simp
  next
    case (Inr res)
    show ?thesis
    proof (cases res)
      case None
      with Inr Cons.IH show ?thesis by simp
    next
      case (Some resource)
      obtain x w1 where p: "putToNode_with retryRequest e resource w = (x, w1)"
        by (cases "putToNode_with retryRequest e resource w")
      then have p': "putToNode_with retryRequest (e\<lparr>write_reply := wr\<rparr>) resource (set_console c w) =
          (x, set_console c w1)"
        by (simp add: putToNode_console)
      show ?thesis
      proof (cases x)
        case (Inl err)
        with Inr Some p p' show ?thesis by simp
      next
        case (Inr status)
        with \<open>entry_resource entry = Inr res\<close> Some p p' Cons.IH [of "results @ [status]" w1]
        show ?thesis by simp
      qed
    qed
  qed
qed

lemma related_try_console:
  "related_try retryRequest (e\<lparr>write_reply := wr\<rparr>) q results (set_console c w) =
     apsnd (apsnd (set_console c)) (related_try retryRequest e q results w)"
proof -
  obtain x w1 where g: "getFromProxy e q w = (x, w1)" by (cases "getFromProxy e q w")
  then have g': "getFromProxy (e\<lparr>write_reply := wr\<rparr>) q (set_console c w) = (x, set_console c w1)"
    by (simp add: getFromProxy_console)
  show ?thesis
    unfolding related_try_def g g'
    by (simp add: deliver_entries_console split: sum.splits option.splits)
qed

lemma related_step_console:
  "related_step retryRequest (e\<lparr>write_reply := wr\<rparr>) q results (set_console c w) =
     apsnd (set_console c) (related_step retryRequest e q results w)"
  by (cases "related_try retryRequest e q results w")
     (simp add: related_step_def related_try_console)

lemma related_loop_console:
  "related_loop retryRequest (e\<lparr>write_reply := wr\<rparr>) qs results (set_console c w) =
     apsnd (set_console c) (related_loop retryRequest e qs results w)"
proof (induction qs arbitrary: results w)
  case Nil
  then show ?case by simp
next
  case (Cons tq qs)
  obtain t q where tq: "tq = (t, q)" by (cases tq)
  obtain r1 w1 where s: "related_step retryRequest e q results w = (r1, w1)"
    by (cases "related_step retryRequest e q results w")
  then have "related_step retryRequest (e\<lparr>write_reply := wr\<rparr>) q results (set_console c w) =
      (r1, set_console c w1)"
    by (simp add: related_step_console)
  with Cons.IH [of r1 w1] tq s show ?case by simp
qed

lemma patient_step_console:
  "patient_step retryRequest (e\<lparr>write_reply := wr\<rparr>) encounter results (set_console c w) =
     apsnd (apsnd (set_console c)) (patient_step retryRequest e encounter results w)"
proof (cases "patientId encounter")
  case (Inl err)
  then show ?thesis by (simp add: patient_step_def)
next
  case (Inr p)
  show ?thesis
  proof (cases p)
    case None
    with Inr show ?thesis by (simp add: patient_step_def)
  next
    case (Some pid)
    obtain x w1 where g: "getFromProxy e (''/Patient/'' @ pid) w = (x, w1)"
      by (cases "getFromProxy e (''/Patient/'' @ pid) w")
    then have g': "getFromProxy (e\<lparr>write_reply := wr\<rparr>) (''/Patient/'' @ pid) (set_console c w) =
        (x, set_console c w1)"
      by (simp add: getFromProxy_console)
    show ?thesis
    proof (cases x)
      case (Inl err)
      with Inr Some g g' show ?thesis by (simp add: patient_step_def)
    next
      case (Inr patient)
      obtain y w2 where p: "putToNode_with retryRequest e patient w1 = (y, w2)"
        by (cases "putToNode_with retryRequest e patient w1")
      then have "putToNode_with retryRequest (e\<lparr>write_reply := wr\<rparr>) patient (set_console c w1) =
          (y, set_console c w2)"
        by (simp add: putToNode_console)
      with \<open>patientId encounter = Inr p\<close> Some g g' Inr p show ?thesis
        by (cases y) (simp_all add: patient_step_def)
    qed
  qed
qed

lemma process_event_console:
  "process_event retryRequest (e\<lparr>write_reply := wr\<rparr>) uuid (set_console c w) =
     apsnd (apsnd (set_console c)) (process_event retryRequest e uuid w)"
proof -
  let ?path = "''/Encounter/'' @ js_string uuid"
  obtain x w1 where g: "getFromProxy e ?path w = (x, w1)" by (cases "getFromProxy e ?path w")
  then have g': "getFromProxy (e\<lparr>write_reply := wr\<rparr>) ?path (set_console c w) = (x, set_console c w1)"
    by (simp add: getFromProxy_console)
  show ?thesis
  proof (cases x)
    case (Inl err)
    with g g' show ?thesis by (simp add: process_event_def)
  next
    case (Inr encounter)
    obtain y w2 where p: "putToNode_with retryRequest e encounter w1 = (y, w2)"
      by (cases "putToNode_with retryRequest e encounter w1")
    then have p': "putToNode_with retryRequest (e\<lparr>write_reply := wr\<rparr>) encounter (set_console c w1) =
        (y, set_console c w2)"
      by (simp add: putToNode_console)
    show ?thesis
    proof (cases y)
      case (Inl err)
      with g g' Inr p p' show ?thesis by (simp add: process_event_def)
    next
      case (Inr status)
      obtain z rs w3 where s: "patient_step retryRequest e encounter [status] w2 = (z, rs, w3)"
        by (cases "patient_step retryRequest e encounter [status] w2")
      then have s': "patient_step retryRequest (e\<lparr>write_reply := wr\<rparr>) encounter [status]
          (set_console c w2) = (z, rs, set_console c w3)"
        by (simp add: patient_step_console)
      obtain rs1 w4 where l: "related_loop retryRequest e (resourceQueries uuid) rs w3 = (rs1, w4)"
        by (cases "related_loop retryRequest e (resourceQueries uuid) rs w3")
      then have l': "related_loop retryRequest (e\<lparr>write_reply := wr\<rparr>) (resourceQueries uuid) rs
          (set_console c w3) = (rs1, set_console c w4)"
        by (simp add: related_loop_console)
      from g g' \<open>x = Inr encounter\<close> p p' Inr s s' l l' show ?thesis
        by (cases z) (simp_all add: process_event_def)
    qed
  qed
qed

lemma admit_console:
  "admit (e\<lparr>write_reply := wr\<rparr>) uuid w =
     set_console (console_error (admit (e\<lparr>write_reply := wr\<rparr>) uuid w)) (admit e uuid w)"
  by (simp add: admit_def saveSeen_def Let_def set_console_def split: option.splits)

lemma respond_console:
  "respond uuid (apsnd (apsnd (set_console c)) outcome) = apsnd (set_console c) (respond uuid outcome)"
  by (cases outcome) (simp add: respond_def split: option.splits)

lemma post_event_console:
  "\<exists>c. post_event (e\<lparr>write_reply := wr\<rparr>) u w = apsnd (set_console c) (post_event e u w)"
proof (cases "truthy_opt u \<and> \<not> seen_has (seen w) (the u)")
  case False
  have "post_event (e\<lparr>write_reply := wr\<rparr>) u w = apsnd (set_console (console_error w)) (post_event e u w)"
    using False
    by (cases u) (auto simp: post_event_def post_event_with_def set_console_def)
  then show ?thesis ..
next
  case True
  then obtain uuid where u: "u = Some uuid" "truthy uuid" "\<not> seen_has (seen w) uuid"
    by (cases u) auto
  let ?c = "console_error (admit (e\<lparr>write_reply := wr\<rparr>) uuid w)"
  have "process_event retryRequest (e\<lparr>write_reply := wr\<rparr>) uuid (admit (e\<lparr>write_reply := wr\<rparr>) uuid w) =
      apsnd (apsnd (set_console ?c)) (process_event retryRequest e uuid (admit e uuid w))"
    by (subst admit_console) (rule process_event_console)
  with u have "post_event (e\<lparr>write_reply := wr\<rparr>) u w = apsnd (set_console ?c) (post_event e u w)"
    by (simp add: post_event_admitted respond_console)
  then show ?thesis ..
qed

lemma post_event_console_error:
  assumes "truthy uuid" and "\<not> seen_has (seen w) uuid"
  shows "console_error (snd (post_event e (Some uuid) w)) = console_error (admit e uuid w)"
proof -
  let ?a = "admit e uuid w"
  let ?g = "?a\<lparr>trace := trace ?a @ [GET (proxy_url e (''/Encounter/'' @ js_string uuid))]\<rparr>"
  have "grows ?g (snd (snd (process_event retryRequest e uuid ?a)))"
    by (rule process_event_after_fetch)
  then have "console_error (snd (snd (process_event retryRequest e uuid ?a))) = console_error ?g"
    by (rule grows_console)
  moreover have "snd (post_event e (Some uuid) w) = snd (snd (process_event retryRequest e uuid ?a))"
    using assms by (cases "process_event retryRequest e uuid ?a")
      (simp add: post_event_admitted respond_snd)
  ultimately show ?thesis by simp
qed

lemma admit_write_fails:
  "\<not> seen_has (seen w) uuid \<Longrightarrow> write_reply e (trace w) (JArr (seen w @ [uuid])) = Some err \<Longrightarrow>
   console_error (admit e uuid w) = console_error w @ [(''Error guardando seen.json:'', err)]"
  by (simp add: admit_def saveSeen_def seen_add_def Let_def)

text \<open>
  C8. The handler with another outcome of the write of \<^verbatim>\<open>seen.json\<close> gives the same
  response, the same set of seen identifiers and the same requests, waits and writes:
  only the console differs. When the write fails for an admitted event, the console
  gets the one line with the error. At startup a file that is missing, cannot be read
  or is not JSON, and a JSON value that is \<^verbatim>\<open>null\<close> or not iterable, give the empty
  set; \<open>load_seen\<close> is a total function, the load has no other outcome than a set.
\<close>

theorem persist_failure_swallowed:
  "fst (post_event (e\<lparr>write_reply := wr\<rparr>) u w) = fst (post_event e u w) \<and>
   seen (snd (post_event (e\<lparr>write_reply := wr\<rparr>) u w)) = seen (snd (post_event e u w)) \<and>
   trace (snd (post_event (e\<lparr>write_reply := wr\<rparr>) u w)) = trace (snd (post_event e u w)) \<and>
   (truthy uuid \<and> \<not> seen_has (seen w) uuid \<and>
    write_reply e (trace w) (JArr (seen w @ [uuid])) = Some err \<longrightarrow>
      console_error (snd (post_event e (Some uuid) w)) =
        console_error w @ [(''Error guardando seen.json:'', err)]) \<and>
   load_seen Missing = [] \<and> load_seen Unreadable = [] \<and> load_seen Corrupt = [] \<and>
   load_seen (Parsed JNull) = [] \<and> load_seen (Parsed (JBool b)) = [] \<and>
   load_seen (Parsed (JNum n)) = [] \<and> load_seen (Parsed (JObj kvs)) = []"
proof -
  from post_event_console [where e = e and wr = wr and u = u and w = w] obtain c where
    "post_event (e\<lparr>write_reply := wr\<rparr>) u w = apsnd (set_console c) (post_event e u w)" ..
  then have "fst (post_event (e\<lparr>write_reply := wr\<rparr>) u w) = fst (post_event e u w)"
    "seen (snd (post_event (e\<lparr>write_reply := wr\<rparr>) u w)) = seen (snd (post_event e u w))"
    "trace (snd (post_event (e\<lparr>write_reply := wr\<rparr>) u w)) = trace (snd (post_event e u w))"
    by (cases "post_event e u w"; simp)+
  then show ?thesis
    by (simp add: post_event_console_error admit_write_fails)
qed

theorem persist_failure_swallowed_witness:
  "truthy (JStr ''enc-1'') \<and> \<not> seen_has (seen world0) (JStr ''enc-1'') \<and>
   write_reply env_disk_full (trace world0) (JArr (seen world0 @ [JStr ''enc-1''])) =
     Some (SystemError ''ENOSPC: no space left on device'') \<and>
   console_error (snd (post_event env_disk_full (Some (JStr ''enc-1'')) world0)) =
     [(''Error guardando seen.json:'', SystemError ''ENOSPC: no space left on device'')] \<and>
   fst (post_event env_disk_full (Some (JStr ''enc-1'')) world0) =
     fst (post_event env1 (Some (JStr ''enc-1'')) world0) \<and>
   seen (snd (post_event env_disk_full (Some (JStr ''enc-1'')) world0)) =
     seen (snd (post_event env1 (Some (JStr ''enc-1'')) world0)) \<and>
   trace (snd (post_event env_disk_full (Some (JStr ''enc-1'')) world0)) =
     trace (snd (post_event env1 (Some (JStr ''enc-1'')) world0)) \<and>
   fst (post_event env_disk_full (Some (JStr ''enc-1'')) world0) =
     Some (Response 200 (JObj [(''status'', JStr ''ok''), (''uuid'', JStr ''enc-1''), (''sent'', JNum ''4'')]))"
proof -
  let ?u = "JStr ''enc-1''"
  let ?err = "SystemError ''ENOSPC: no space left on device''"
  have h: "truthy ?u" "\<not> seen_has (seen world0) ?u"
    by (simp_all add: world0_def seen_has_def)
  have f: "write_reply env_disk_full (trace world0) (JArr (seen world0 @ [?u])) = Some ?err"
    by (simp add: env_disk_full_def)
  have c0: "console_error world0 @ [(''Error guardando seen.json:'', ?err)] =
      [(''Error guardando seen.json:'', ?err)]"
    by (simp add: world0_def)
  note t = persist_failure_swallowed [where e = env1 and wr = "\<lambda>h content. Some ?err"
      and u = "Some ?u" and w = world0, folded env_disk_full_def]
  note t1 = t [THEN conjunct1]
  note t2 = t [THEN conjunct2, THEN conjunct1]
  note t3 = t [THEN conjunct2, THEN conjunct2, THEN conjunct1]
  note t4 = persist_failure_swallowed [where e = env_disk_full and uuid = ?u and w = world0,
      THEN conjunct2, THEN conjunct2, THEN conjunct2, THEN conjunct1, rule_format,
      OF conjI, OF h(1) conjI, OF h(2) f, unfolded c0]
  have r: "fst (post_event env1 (Some ?u) world0) =
     Some (Response 200 (JObj [(''status'', JStr ''ok''), (''uuid'', JStr ''enc-1''), (''sent'', JNum ''4'')]))"
    by (simp add: eval_defs)
  from h f t1 t2 t3 t4 r show ?thesis by simp
qed

end
